theory Spec2Isabelle
  imports Main
begin

section \<open>The training script \<^verbatim>\<open>scripts/train.py\<close>\<close>

text \<open>
  The script is one straight-line program followed by a \<^verbatim>\<open>while\<close> loop. Everything it
  does is a call into a collaborating library (gym, torch, torch_rl, utils, tensorboardX),
  so the model is a state record of the script's variables together with the trace of the
  library calls made so far, in program order.

  What the libraries and the machine hand back is an input of the model:
  \<^item> the parsed arguments (\<^verbatim>\<open>parser.parse_args()\<close>), a record with one field per flag;
  \<^item> the time stamp \<^verbatim>\<open>datetime.datetime.now().strftime("%y%m%d%H%M%S")\<close>;
  \<^item> the answer of \<^verbatim>\<open>torch.cuda.is_available()\<close>, the same at each of its calls;
  \<^item> for each call of \<^verbatim>\<open>algo.update_parameters()\<close>, the dictionary it returns and the two
    readings of \<^verbatim>\<open>time.time()\<close> taken before and after it (lines 125 and 127).

  Library calls are taken to return normally. The operators of the script itself are
  modelled with their exceptions: \<^verbatim>\<open>envs[0]\<close>, the two \<^verbatim>\<open>%\<close>, and the division of line
  136, which raises when its integer operand does not convert to a float or when the two
  clock readings are equal. The float values themselves (\<^verbatim>\<open>fps\<close>, \<^verbatim>\<open>duration\<close>) only flow
  into the printed line and the tensorboard scalars and are not carried by the model.
  Python's \<^verbatim>\<open>float\<close> is the type parameter \<open>'f\<close> for the hyperparameters and \<open>'t\<close> for the
  clock readings; the entries of the update dictionary other than \<^verbatim>\<open>"num_frames"\<close> are
  the type parameter \<open>'m\<close>.
\<close>

subsection \<open>Python values\<close>

datatype error = ValueError | IndexError | ZeroDivisionError | OverflowError

text \<open>\<^verbatim>\<open>a % b\<close> on Python integers: floor modulus, raising on a zero divisor.\<close>

definition py_mod :: "int \<Rightarrow> int \<Rightarrow> error + int" where
  "py_mod a b = (if b = 0 then Inl ZeroDivisionError else Inr (a mod b))"

text \<open>
  \<^verbatim>\<open>n / (t1 - t0)\<close> for a Python integer \<open>n\<close> and two finite floats: the integer is
  converted to a float first, which raises \<^verbatim>\<open>OverflowError\<close> when it rounds to a value
  beyond the largest double, that is when \<open>\<bar>n\<bar> \<ge> 2^1024 - 2^970\<close>; then a zero divisor
  raises \<^verbatim>\<open>ZeroDivisionError\<close>. The difference of two finite floats is zero exactly
  when they are equal. The result is the exception raised, if any.
\<close>

definition fits_float :: "int \<Rightarrow> bool" where
  "fits_float n = (\<bar>n\<bar> < 2 ^ 1024 - 2 ^ 970)"

definition py_truediv_raises :: "int \<Rightarrow> 't \<Rightarrow> 't \<Rightarrow> error option" where
  "py_truediv_raises n t1 t0 =
     (if \<not> fits_float n then Some OverflowError
      else if t1 = t0 then Some ZeroDivisionError
      else None)"

text \<open>\<^verbatim>\<open>range(n)\<close>: empty when \<open>n \<le> 0\<close>.\<close>

definition py_range :: "int \<Rightarrow> int list" where
  "py_range n = map int [0..<nat n]"

subsection \<open>Arguments and the outside world\<close>

record 'f args =
  algo :: string
  env :: string
  model :: "string option"
  seed :: int
  procs :: int
  frames :: int
  log_interval :: int
  save_interval :: int
  no_tb :: bool
  frames_per_proc :: "int option"
  discount :: 'f
  lr :: 'f
  gae_tau :: 'f
  entropy_coef :: 'f
  value_loss_coef :: 'f
  max_grad_norm :: 'f
  recurrence :: int
  optim_eps :: 'f
  optim_alpha :: 'f
  clip_eps :: 'f
  epochs :: int
  batch_size :: int

text \<open>The dictionary returned by one call of \<^verbatim>\<open>algo.update_parameters()\<close>.\<close>

record 'm update_log =
  log_num_frames :: int
  log_metrics :: 'm

text \<open>
  One call of \<^verbatim>\<open>algo.update_parameters()\<close> with the clock readings of lines 125 and 127
  around it.
\<close>

record ('t, 'm) update =
  update_start_time :: 't
  update_result :: "'m update_log"
  update_end_time :: 't

record ('t, 'm) world =
  strftime_now :: string
  cuda_is_available :: bool
  update_parameters :: "('t, 'm) update list"

subsection \<open>Script state and library calls\<close>

datatype device = CPU | CUDA

record gym_env =
  env_id :: string
  env_seed :: int

datatype ('f, 'm) event =
    ParseArgs
  | Seed int
  | GymMake string
  | EnvSeed int int
  | ObssPreprocessor string gym_env
  | LoadModel string
  | ModelCuda
  | ModelCpu
  | A2CAlgo "gym_env list" "int option" 'f 'f 'f 'f 'f 'f int 'f 'f
  | PPOAlgo "gym_env list" "int option" 'f 'f 'f 'f 'f 'f int 'f 'f int int
  | Logger string
  | SummaryWriter string
  | LogCommand
  | LogModel
  | UpdateParameters
  | LogLine int int 'm
  | AddScalar string int
  | AddScalars string int
  | VocabSave
  | SaveModel "device option" string

record ('f, 'm) state =
  trace :: "('f, 'm) event list"
  envs :: "gym_env list"
  acmodel :: "device option"
  num_frames :: int
  loop_i :: int

definition init_state :: "('f, 'm) state" where
  "init_state = \<lparr>trace = [], envs = [], acmodel = None, num_frames = 0, loop_i = 0\<rparr>"

definition emit :: "('f, 'm) event \<Rightarrow> ('f, 'm) state \<Rightarrow> ('f, 'm) state" where
  "emit e st = st\<lparr>trace := trace st @ [e]\<rparr>"

text \<open>\<^verbatim>\<open>acmodel.cuda()\<close> and \<^verbatim>\<open>acmodel.cpu()\<close> move the model that is there.\<close>

definition model_cuda :: "('f, 'm) state \<Rightarrow> ('f, 'm) state" where
  "model_cuda st = (emit ModelCuda st)\<lparr>acmodel := map_option (\<lambda>_. CUDA) (acmodel st)\<rparr>"

definition model_cpu :: "('f, 'm) state \<Rightarrow> ('f, 'm) state" where
  "model_cpu st = (emit ModelCpu st)\<lparr>acmodel := map_option (\<lambda>_. CPU) (acmodel st)\<rparr>"

subsection \<open>Lines 61--114: set-up\<close>

text \<open>
  One round of the loop of lines 70--73: \<^verbatim>\<open>env = gym.make(args.env)\<close>,
  \<^verbatim>\<open>env.seed(args.seed + i)\<close>, \<^verbatim>\<open>envs.append(env)\<close>.
\<close>

definition make_env :: "'f args \<Rightarrow> ('f, 'm) state \<Rightarrow> int \<Rightarrow> ('f, 'm) state" where
  "make_env a st j =
     (emit (EnvSeed j (seed a + j)) (emit (GymMake (env a)) st))
       \<lparr>envs := envs st @ [\<lparr>env_id = env a, env_seed = seed a + j\<rparr>]\<rparr>"

definition generate_envs :: "'f args \<Rightarrow> ('f, 'm) state \<Rightarrow> ('f, 'm) state" where
  "generate_envs a st = foldl (make_env a) (st\<lparr>envs := []\<rparr>) (py_range (procs a))"

text \<open>
  Line 78: \<^verbatim>\<open>args.model or args.env + "_" + args.algo + "_" + suffix\<close>. Python's
  \<^verbatim>\<open>or\<close> takes the right operand when the left one is falsy: \<^verbatim>\<open>None\<close> or the empty string.
\<close>

definition default_model_name :: "'f args \<Rightarrow> string \<Rightarrow> string" where
  "default_model_name a suffix = env a @ ''_'' @ algo a @ ''_'' @ suffix"

definition model_name :: "'f args \<Rightarrow> string \<Rightarrow> string" where
  "model_name a suffix =
     (case model a of
        None \<Rightarrow> default_model_name a suffix
      | Some m \<Rightarrow> if m \<noteq> [] then m else default_model_name a suffix)"

text \<open>Line 106: \<^verbatim>\<open>model_name + ("_" + suffix if args.model is not None else "")\<close>.\<close>

definition log_name :: "'f args \<Rightarrow> string \<Rightarrow> string" where
  "log_name a suffix =
     model_name a suffix @ (if model a \<noteq> None then ''_'' @ suffix else [])"

text \<open>Lines 92--102: the choice of the algorithm; \<^verbatim>\<open>raise ValueError\<close> otherwise.\<close>

definition define_algo :: "'f args \<Rightarrow> ('f, 'm) state \<Rightarrow> error option \<times> ('f, 'm) state" where
  "define_algo a st =
     (if algo a = ''a2c'' then
        (None, emit (A2CAlgo (envs st) (frames_per_proc a) (discount a) (lr a) (gae_tau a)
                       (entropy_coef a) (value_loss_coef a) (max_grad_norm a) (recurrence a)
                       (optim_alpha a) (optim_eps a)) st)
      else if algo a = ''ppo'' then
        (None, emit (PPOAlgo (envs st) (frames_per_proc a) (discount a) (lr a) (gae_tau a)
                       (entropy_coef a) (value_loss_coef a) (max_grad_norm a) (recurrence a)
                       (optim_eps a) (clip_eps a) (epochs a) (batch_size a)) st)
      else (Some ValueError, st))"

text \<open>Lines 106--120: logger, tensorboard writer, the two first log entries, the counters.\<close>

definition define_logger :: "'f args \<Rightarrow> ('t, 'm) world \<Rightarrow> ('f, 'm) state \<Rightarrow> ('f, 'm) state" where
  "define_logger a w st =
     (let st1 = emit (Logger (log_name a (strftime_now w))) st;
          st2 = (if \<not> no_tb a then emit (SummaryWriter (log_name a (strftime_now w))) st1
                 else st1);
          st3 = emit LogModel (emit LogCommand st2)
      in st3\<lparr>num_frames := 0, loop_i := 0\<rparr>)"

text \<open>
  Lines 61--120. \<^verbatim>\<open>envs[0]\<close> raises \<^verbatim>\<open>IndexError\<close> on the empty list. The model returned
  by \<^verbatim>\<open>utils.load_model\<close> is on the CPU until \<^verbatim>\<open>acmodel.cuda()\<close> moves it.
\<close>

definition script_setup :: "'f args \<Rightarrow> ('t, 'm) world \<Rightarrow> error option \<times> ('f, 'm) state" where
  "script_setup a w =
     (let st1 = emit (Seed (seed a)) (emit ParseArgs init_state);
          st2 = generate_envs a st1
      in case envs st2 of
           [] \<Rightarrow> (Some IndexError, st2)
         | env0 # _ \<Rightarrow>
             (let st3 = emit (ObssPreprocessor (model_name a (strftime_now w)) env0) st2;
                  st4 = (emit (LoadModel (model_name a (strftime_now w))) st3)
                          \<lparr>acmodel := Some CPU\<rparr>;
                  st5 = (if cuda_is_available w then model_cuda st4 else st4)
              in case define_algo a st5 of
                   (Some e, st6) \<Rightarrow> (Some e, st6)
                 | (None, st6) \<Rightarrow> (None, define_logger a w st6)))"

subsection \<open>Lines 122--172: the training loop\<close>

text \<open>
  Lines 149--161: the tensorboard scalars of one logged update, all at step \<open>i\<close>.
  \<open>AddScalar\<close> is one \<^verbatim>\<open>writer.add_scalar\<close>; \<open>AddScalars\<close> is one of the three
  \<^verbatim>\<open>for key, value in ....items()\<close> loops, which writes one scalar for each key of
  the synthesized dictionary under the given prefix.
\<close>

definition scalar_calls :: "int \<Rightarrow> ('f, 'm) event list" where
  "scalar_calls j =
     [AddScalar ''frames'' j, AddScalar ''FPS'' j, AddScalar ''duration'' j,
      AddScalars ''return_'' j, AddScalars ''rreturn_'' j, AddScalars ''num_frames_'' j,
      AddScalar ''entropy'' j, AddScalar ''value'' j,
      AddScalar ''policy_loss'' j, AddScalar ''value_loss'' j]"

definition write_scalars :: "('f, 'm) state \<Rightarrow> ('f, 'm) state" where
  "write_scalars st = foldl (\<lambda>s e. emit e s) st (scalar_calls (loop_i st))"

text \<open>Line 136: \<^verbatim>\<open>fps = log["num_frames"]/(update_end_time - update_start_time)\<close>.\<close>

definition fps_error :: "('t, 'm) update \<Rightarrow> error option" where
  "fps_error u =
     py_truediv_raises (log_num_frames (update_result u)) (update_end_time u)
       (update_start_time u)"

text \<open>
  Lines 135--161: the body of \<^verbatim>\<open>if i % args.log_interval == 0\<close>. When line 136 raises,
  nothing has been printed or written yet.
\<close>

definition print_logs ::
  "'f args \<Rightarrow> ('t, 'm) update \<Rightarrow> ('f, 'm) state \<Rightarrow> error option \<times> ('f, 'm) state"
where
  "print_logs a u st =
     (case fps_error u of
        Some e \<Rightarrow> (Some e, st)
      | None \<Rightarrow>
          (let st1 = emit (LogLine (loop_i st) (num_frames st)
                             (log_metrics (update_result u))) st
           in (None, if \<not> no_tb a then write_scalars st1 else st1)))"

text \<open>Lines 166--172: the body of the save block.\<close>

definition save_block :: "'f args \<Rightarrow> ('t, 'm) world \<Rightarrow> ('f, 'm) state \<Rightarrow> ('f, 'm) state" where
  "save_block a w st =
     (let st1 = emit VocabSave st;
          st2 = (if cuda_is_available w then model_cpu st1 else st1);
          st3 = emit (SaveModel (acmodel st2) (model_name a (strftime_now w))) st2
      in if cuda_is_available w then model_cuda st3 else st3)"

text \<open>
  Lines 125--172: one round of the \<^verbatim>\<open>while\<close> loop, on the update \<open>u\<close>: what this round's
  \<^verbatim>\<open>algo.update_parameters()\<close> returns and the clock readings around it. The second
  operand of the \<^verbatim>\<open>and\<close> of line 165 is evaluated only when the first one holds.
\<close>

definition iteration ::
  "'f args \<Rightarrow> ('t, 'm) world \<Rightarrow> ('t, 'm) update \<Rightarrow> ('f, 'm) state \<Rightarrow>
     error option \<times> ('f, 'm) state"
where
  "iteration a w u st =
     (let st1 = emit UpdateParameters st;
          st2 = st1\<lparr>num_frames := num_frames st1 + log_num_frames (update_result u)\<rparr>;
          st3 = st2\<lparr>loop_i := loop_i st2 + 1\<rparr>
      in case py_mod (loop_i st3) (log_interval a) of
           Inl e \<Rightarrow> (Some e, st3)
         | Inr r \<Rightarrow>
             (case (if r = 0 then print_logs a u st3 else (None, st3)) of
                (Some e, st4) \<Rightarrow> (Some e, st4)
              | (None, st4) \<Rightarrow>
                  if save_interval a > 0 then
                    (case py_mod (loop_i st4) (save_interval a) of
                       Inl e \<Rightarrow> (Some e, st4)
                     | Inr r' \<Rightarrow> (None, if r' = 0 then save_block a w st4 else st4))
                  else (None, st4)))"

text \<open>
  How a run of the loop ends: the condition of line 122 became false, an exception left
  the script, or the supplied list of update results was used up while the condition
  still held (the loop would go on).
\<close>

datatype status = Finished | Raised error | Starved

text \<open>
  Line 122: \<^verbatim>\<open>while num_frames < args.frames\<close>. The list holds the next calls of
  \<^verbatim>\<open>algo.update_parameters()\<close>, one element for each call.
\<close>

fun train_loop ::
  "'f args \<Rightarrow> ('t, 'm) world \<Rightarrow> ('t, 'm) update list \<Rightarrow> ('f, 'm) state \<Rightarrow>
     status \<times> ('f, 'm) state"
where
  "train_loop a w [] st =
     (if num_frames st < frames a then (Starved, st) else (Finished, st))"
| "train_loop a w (l # ls) st =
     (if num_frames st < frames a then
        (case iteration a w l st of
           (Some e, st') \<Rightarrow> (Raised e, st')
         | (None, st') \<Rightarrow> train_loop a w ls st')
      else (Finished, st))"

text \<open>The whole script.\<close>

definition train_script :: "'f args \<Rightarrow> ('t, 'm) world \<Rightarrow> status \<times> ('f, 'm) state" where
  "train_script a w =
     (case script_setup a w of
        (Some e, st) \<Rightarrow> (Raised e, st)
      | (None, st) \<Rightarrow> train_loop a w (update_parameters w) st)"

text \<open>The calls made between two states of one run.\<close>

definition emitted :: "('f, 'm) state \<Rightarrow> ('f, 'm) state \<Rightarrow> ('f, 'm) event list" where
  "emitted st st' = drop (length (trace st)) (trace st')"

subsection \<open>Reading a trace\<close>

definition is_update :: "('f, 'm) event \<Rightarrow> bool" where
  "is_update e = (case e of UpdateParameters \<Rightarrow> True | _ \<Rightarrow> False)"

definition is_algo :: "('f, 'm) event \<Rightarrow> bool" where
  "is_algo e =
     (case e of A2CAlgo _ _ _ _ _ _ _ _ _ _ _ \<Rightarrow> True
      | PPOAlgo _ _ _ _ _ _ _ _ _ _ _ _ _ \<Rightarrow> True
      | _ \<Rightarrow> False)"

definition is_gym_make :: "('f, 'm) event \<Rightarrow> bool" where
  "is_gym_make e = (case e of GymMake _ \<Rightarrow> True | _ \<Rightarrow> False)"

definition is_env_seed :: "('f, 'm) event \<Rightarrow> bool" where
  "is_env_seed e = (case e of EnvSeed _ _ \<Rightarrow> True | _ \<Rightarrow> False)"

definition is_checkpoint_call :: "('f, 'm) event \<Rightarrow> bool" where
  "is_checkpoint_call e =
     (case e of VocabSave \<Rightarrow> True | SaveModel _ _ \<Rightarrow> True | _ \<Rightarrow> False)"

definition is_tensorboard_call :: "('f, 'm) event \<Rightarrow> bool" where
  "is_tensorboard_call e =
     (case e of SummaryWriter _ \<Rightarrow> True | AddScalar _ _ \<Rightarrow> True | AddScalars _ _ \<Rightarrow> True
      | _ \<Rightarrow> False)"

text \<open>The log line of update \<open>k\<close>, and a tensorboard scalar written at step \<open>k\<close>.\<close>

definition log_line_at :: "int \<Rightarrow> ('f, 'm) event \<Rightarrow> bool" where
  "log_line_at k e = (case e of LogLine j _ _ \<Rightarrow> j = k | _ \<Rightarrow> False)"

definition scalar_at :: "int \<Rightarrow> ('f, 'm) event \<Rightarrow> bool" where
  "scalar_at k e =
     (case e of AddScalar _ j \<Rightarrow> j = k | AddScalars _ j \<Rightarrow> j = k | _ \<Rightarrow> False)"

text \<open>The calls that the body of the loop makes.\<close>

definition is_loop_call :: "('f, 'm) event \<Rightarrow> bool" where
  "is_loop_call e =
     (case e of UpdateParameters \<Rightarrow> True | LogLine _ _ _ \<Rightarrow> True
      | AddScalar _ _ \<Rightarrow> True | AddScalars _ _ \<Rightarrow> True | VocabSave \<Rightarrow> True
      | ModelCpu \<Rightarrow> True | SaveModel _ _ \<Rightarrow> True | ModelCuda \<Rightarrow> True
      | _ \<Rightarrow> False)"

subsection \<open>The calls of each step\<close>

text \<open>
  The lists of calls that the steps of the script add to the trace, written out, and the
  two conditions of the loop body. They are used to state what a run looks like.
\<close>

text \<open>Lines 70--73, for the indices \<open>js\<close>.\<close>

definition env_calls :: "'f args \<Rightarrow> int list \<Rightarrow> ('f, 'm) event list" where
  "env_calls a js = concat (map (\<lambda>j. [GymMake (env a), EnvSeed j (seed a + j)]) js)"

text \<open>Lines 82--88: preprocessor, model, move to the GPU.\<close>

definition model_calls :: "'f args \<Rightarrow> ('t, 'm) world \<Rightarrow> ('f, 'm) event list" where
  "model_calls a w =
     [ObssPreprocessor (model_name a (strftime_now w)) \<lparr>env_id = env a, env_seed = seed a\<rparr>,
      LoadModel (model_name a (strftime_now w))] @
     (if cuda_is_available w then [ModelCuda] else [])"

text \<open>Lines 108--114.\<close>

definition logger_calls :: "'f args \<Rightarrow> ('t, 'm) world \<Rightarrow> ('f, 'm) event list" where
  "logger_calls a w =
     Logger (log_name a (strftime_now w)) #
     (if no_tb a then [] else [SummaryWriter (log_name a (strftime_now w))]) @
     [LogCommand, LogModel]"

text \<open>Lines 166--172, for a model that is on device \<open>d\<close> when the block starts.\<close>

definition save_calls :: "'f args \<Rightarrow> ('t, 'm) world \<Rightarrow> device option \<Rightarrow> ('f, 'm) event list" where
  "save_calls a w d =
     (if cuda_is_available w
      then [VocabSave, ModelCpu,
            SaveModel (map_option (\<lambda>_. CPU) d) (model_name a (strftime_now w)), ModelCuda]
      else [VocabSave, SaveModel d (model_name a (strftime_now w))])"

text \<open>
  The condition of line 134 evaluates to \<^verbatim>\<open>True\<close> at counter \<open>j\<close>; the condition of
  line 165 does.
\<close>

definition logs_now :: "'f args \<Rightarrow> int \<Rightarrow> bool" where
  "logs_now a j = (log_interval a \<noteq> 0 \<and> j mod log_interval a = 0)"

definition saves_now :: "'f args \<Rightarrow> int \<Rightarrow> bool" where
  "saves_now a j = (0 < save_interval a \<and> j mod save_interval a = 0)"

text \<open>
  The exception that ends the round whose update \<open>u\<close> brings the counter to \<open>j\<close>, if any:
  that of line 134, or that of line 136 when the log is due.
\<close>

definition round_error :: "'f args \<Rightarrow> int \<Rightarrow> ('t, 'm) update \<Rightarrow> error option" where
  "round_error a j u =
     (if log_interval a = 0 then Some ZeroDivisionError
      else if logs_now a j then fps_error u
      else None)"

subsection \<open>A small run\<close>

text \<open>
  Two processes, three frames to train for, two frames for each update; every
  hyperparameter is the unit value and the clock counts ticks. In \<open>demo_update\<close> the clock
  moves by one tick during the update; in \<open>frozen_update\<close> it does not move.
\<close>

definition demo_args :: "unit args" where
  "demo_args =
     \<lparr>algo = ''ppo'', env = ''MiniGrid-Empty-8x8-v0'', model = None, seed = 1, procs = 2,
      frames = 3, log_interval = 1, save_interval = 0, no_tb = False,
      frames_per_proc = None, discount = (), lr = (), gae_tau = (), entropy_coef = (),
      value_loss_coef = (), max_grad_norm = (), recurrence = 1, optim_eps = (),
      optim_alpha = (), clip_eps = (), epochs = 4, batch_size = 256\<rparr>"

definition demo_log :: "int \<Rightarrow> unit update_log" where
  "demo_log n = \<lparr>log_num_frames = n, log_metrics = ()\<rparr>"

definition demo_update :: "int \<Rightarrow> (nat, unit) update" where
  "demo_update n =
     \<lparr>update_start_time = 0, update_result = demo_log n, update_end_time = 1\<rparr>"

definition frozen_update :: "int \<Rightarrow> (nat, unit) update" where
  "frozen_update n =
     \<lparr>update_start_time = 0, update_result = demo_log n, update_end_time = 0\<rparr>"

definition demo_world :: "(nat, unit) world" where
  "demo_world =
     \<lparr>strftime_now = ''261104212400'', cuda_is_available = True,
      update_parameters = [demo_update 2, demo_update 2, demo_update 2]\<rparr>"

section \<open>Properties\<close>

subsection \<open>What each step does to the state\<close>

lemma emit_simps [simp]:
  "trace (emit e st) = trace st @ [e]"
  "envs (emit e st) = envs st"
  "acmodel (emit e st) = acmodel st"
  "num_frames (emit e st) = num_frames st"
  "loop_i (emit e st) = loop_i st"
  by (simp_all add: emit_def)

lemma model_cuda_simps [simp]:
  "trace (model_cuda st) = trace st @ [ModelCuda]"
  "envs (model_cuda st) = envs st"
  "acmodel (model_cuda st) = map_option (\<lambda>_. CUDA) (acmodel st)"
  "num_frames (model_cuda st) = num_frames st"
  "loop_i (model_cuda st) = loop_i st"
  by (simp_all add: model_cuda_def)

lemma model_cpu_simps [simp]:
  "trace (model_cpu st) = trace st @ [ModelCpu]"
  "envs (model_cpu st) = envs st"
  "acmodel (model_cpu st) = map_option (\<lambda>_. CPU) (acmodel st)"
  "num_frames (model_cpu st) = num_frames st"
  "loop_i (model_cpu st) = loop_i st"
  by (simp_all add: model_cpu_def)

lemma foldl_make_env:
  "trace (foldl (make_env a) st js) = trace st @ env_calls a js"
  "envs (foldl (make_env a) st js) =
     envs st @ map (\<lambda>j. \<lparr>env_id = env a, env_seed = seed a + j\<rparr>) js"
  "acmodel (foldl (make_env a) st js) = acmodel st"
  "num_frames (foldl (make_env a) st js) = num_frames st"
  "loop_i (foldl (make_env a) st js) = loop_i st"
  by (induction js arbitrary: st) (simp_all add: make_env_def env_calls_def)

lemma generate_envs_simps [simp]:
  "trace (generate_envs a st) = trace st @ env_calls a (py_range (procs a))"
  "envs (generate_envs a st) =
     map (\<lambda>j. \<lparr>env_id = env a, env_seed = seed a + j\<rparr>) (py_range (procs a))"
  "acmodel (generate_envs a st) = acmodel st"
  "num_frames (generate_envs a st) = num_frames st"
  "loop_i (generate_envs a st) = loop_i st"
  by (simp_all add: generate_envs_def foldl_make_env)

lemma foldl_emit:
  "trace (foldl (\<lambda>s e. emit e s) st es) = trace st @ es"
  "envs (foldl (\<lambda>s e. emit e s) st es) = envs st"
  "acmodel (foldl (\<lambda>s e. emit e s) st es) = acmodel st"
  "num_frames (foldl (\<lambda>s e. emit e s) st es) = num_frames st"
  "loop_i (foldl (\<lambda>s e. emit e s) st es) = loop_i st"
  by (induction es arbitrary: st) simp_all

lemma print_logs_simps [simp]:
  "fst (print_logs a u st) = fps_error u"
  "trace (snd (print_logs a u st)) =
     trace st @
       (if fps_error u = None
        then LogLine (loop_i st) (num_frames st) (log_metrics (update_result u)) #
               (if no_tb a then [] else scalar_calls (loop_i st))
        else [])"
  "envs (snd (print_logs a u st)) = envs st"
  "acmodel (snd (print_logs a u st)) = acmodel st"
  "num_frames (snd (print_logs a u st)) = num_frames st"
  "loop_i (snd (print_logs a u st)) = loop_i st"
  by (simp_all add: print_logs_def write_scalars_def foldl_emit Let_def split: option.split)

lemma save_block_simps [simp]:
  "trace (save_block a w st) = trace st @ save_calls a w (acmodel st)"
  "envs (save_block a w st) = envs st"
  "acmodel (save_block a w st) =
     (if cuda_is_available w then map_option (\<lambda>_. CUDA) (acmodel st) else acmodel st)"
  "num_frames (save_block a w st) = num_frames st"
  "loop_i (save_block a w st) = loop_i st"
  by (simp_all add: save_block_def save_calls_def Let_def option.map_comp comp_def)

text \<open>One round of the loop, spelled out.\<close>

lemma iteration_unfold:
  "iteration a w u st =
     (let st3 = (emit UpdateParameters st)
                  \<lparr>num_frames := num_frames st + log_num_frames (update_result u),
                   loop_i := loop_i st + 1\<rparr>
      in if log_interval a = 0 then (Some ZeroDivisionError, st3)
         else if logs_now a (loop_i st + 1) \<and> fps_error u \<noteq> None then (fps_error u, st3)
         else let st4 = (if logs_now a (loop_i st + 1) then snd (print_logs a u st3) else st3)
              in (None, if saves_now a (loop_i st + 1) then save_block a w st4 else st4))"
proof -
  define st3 where "st3 = (emit UpdateParameters st)
                  \<lparr>num_frames := num_frames st + log_num_frames (update_result u),
                   loop_i := loop_i st + 1\<rparr>"
  have i: "loop_i st3 = loop_i st + 1"
    by (simp add: st3_def)
  have p: "print_logs a u st3 = (None, snd (print_logs a u st3))" if "fps_error u = None"
    using print_logs_simps(1) [of a u st3] that by (metis prod.collapse)
  have q: "print_logs a u st3 = (Some e, st3)" if "fps_error u = Some e" for e
    using that by (simp add: print_logs_def)
  have "iteration a w u st =
     (if log_interval a = 0 then (Some ZeroDivisionError, st3)
      else if logs_now a (loop_i st + 1) \<and> fps_error u \<noteq> None then (fps_error u, st3)
      else let st4 = (if logs_now a (loop_i st + 1) then snd (print_logs a u st3) else st3)
           in (None, if saves_now a (loop_i st + 1) then save_block a w st4 else st4))"
  proof (cases "log_interval a = 0")
    case True
    then show ?thesis
      by (simp add: iteration_def py_mod_def Let_def st3_def)
  next
    case nz: False
    show ?thesis
    proof (cases "logs_now a (loop_i st + 1)")
      case False
      then have "(loop_i st + 1) mod log_interval a \<noteq> 0"
        using nz by (simp add: logs_now_def)
      then show ?thesis
        using nz False
        by (simp add: iteration_def py_mod_def Let_def st3_def [symmetric] i saves_now_def)
    next
      case True
      then have m: "(loop_i st + 1) mod log_interval a = 0"
        by (simp add: logs_now_def)
      show ?thesis
      proof (cases "fps_error u")
        case None
        from p [OF None] obtain s4 where s4: "print_logs a u st3 = (None, s4)"
          by blast
        have l4: "loop_i s4 = loop_i st + 1"
          using print_logs_simps(6) [of a u st3] s4 i by simp
        show ?thesis
          using nz True m None
          by (simp add: iteration_def py_mod_def Let_def st3_def [symmetric] i s4 l4
              saves_now_def)
      next
        case (Some e)
        show ?thesis
          using nz True m Some q [OF Some]
          by (simp add: iteration_def py_mod_def Let_def st3_def [symmetric] i)
      qed
    qed
  qed
  then show ?thesis unfolding st3_def Let_def .
qed

lemma iteration_counters:
  assumes "iteration a w u st = (r, st')"
  shows "loop_i st' = loop_i st + 1"
    and "num_frames st' = num_frames st + log_num_frames (update_result u)"
    and "envs st' = envs st"
  using assms unfolding iteration_unfold
  by (auto simp: Let_def split: if_splits)

lemma iteration_raises:
  assumes "iteration a w u st = (r, st')"
  shows "r = round_error a (loop_i st + 1) u"
  using assms unfolding iteration_unfold
  by (auto simp: Let_def round_error_def logs_now_def split: if_splits)

lemma iteration_trace:
  assumes "iteration a w u st = (r, st')"
  shows "trace st' = trace st @ UpdateParameters #
     (if logs_now a (loop_i st + 1) \<and> fps_error u = None
      then LogLine (loop_i st + 1) (num_frames st + log_num_frames (update_result u))
             (log_metrics (update_result u)) #
             (if no_tb a then [] else scalar_calls (loop_i st + 1))
      else []) @
     (if round_error a (loop_i st + 1) u = None \<and> saves_now a (loop_i st + 1)
      then save_calls a w (acmodel st) else [])"
  using assms unfolding iteration_unfold
  by (auto simp: Let_def round_error_def logs_now_def split: if_splits)

lemma iteration_acmodel:
  assumes "iteration a w u st = (r, st')"
  shows "acmodel st' =
     (if round_error a (loop_i st + 1) u = None \<and> saves_now a (loop_i st + 1) \<and>
         cuda_is_available w
      then map_option (\<lambda>_. CUDA) (acmodel st) else acmodel st)"
  using assms unfolding iteration_unfold
  by (auto simp: Let_def round_error_def logs_now_def split: if_splits)

lemma emitted_append: "trace st' = trace st @ es \<Longrightarrow> emitted st st' = es"
  by (simp add: emitted_def)

subsection \<open>Induction over the loop\<close>

lemma train_loop_invariant:
  assumes "train_loop a w ls st = (r, st')"
    and "P st"
    and "\<And>l s e s'. l \<in> set ls \<Longrightarrow> P s \<Longrightarrow> num_frames s < frames a \<Longrightarrow>
           iteration a w l s = (e, s') \<Longrightarrow> P s'"
  shows "P st'"
  using assms
proof (induction ls arbitrary: st)
  case Nil
  then show ?case by (simp split: if_splits)
next
  case (Cons l ls)
  have step: "P s'" if "l' \<in> set ls" "P s" "num_frames s < frames a"
    "iteration a w l' s = (e, s')" for l' s e s'
  proof -
    from that(1) have "l' \<in> set (l # ls)" by simp
    then show ?thesis using that(2,3,4) by (rule Cons.prems(3))
  qed
  show ?case
  proof (cases "num_frames st < frames a")
    case False
    with Cons.prems(1,2) show ?thesis by simp
  next
    case True
    obtain e s' where it: "iteration a w l st = (e, s')"
      by (cases "iteration a w l st")
    have "l \<in> set (l # ls)" by simp
    then have P': "P s'"
      using Cons.prems(2) True it by (rule Cons.prems(3))
    show ?thesis
    proof (cases e)
      case None
      with Cons.prems(1) True it have "train_loop a w ls s' = (r, st')" by simp
      then show ?thesis using P' step by (rule Cons.IH)
    next
      case (Some err)
      with Cons.prems(1) True it have "st' = s'" by simp
      then show ?thesis using P' by simp
    qed
  qed
qed

lemma train_loop_calls:
  assumes "train_loop a w ls st = (r, st')"
  shows "\<exists>es. trace st' = trace st @ es \<and> list_all is_loop_call es"
    and "envs st' = envs st"
proof -
  let ?P = "\<lambda>s. (\<exists>es. trace s = trace st @ es \<and> list_all is_loop_call es) \<and> envs s = envs st"
  have "?P st'"
  proof (rule train_loop_invariant [OF assms, where P = ?P])
    show "?P st" by simp
  next
    fix l s e s'
    assume P: "?P s" and it: "iteration a w l s = (e, s')"
    from P obtain es where es: "trace s = trace st @ es" "list_all is_loop_call es"
      by blast
    from iteration_trace [OF it] obtain es' where es': "trace s' = trace s @ es'"
      by blast
    have "list_all is_loop_call es'"
      using iteration_trace [OF it] es'
      by (simp add: is_loop_call_def scalar_calls_def save_calls_def)
    then have "trace s' = trace st @ (es @ es') \<and> list_all is_loop_call (es @ es')"
      using es es' by simp
    then have "\<exists>es. trace s' = trace st @ es \<and> list_all is_loop_call es" ..
    moreover have "envs s' = envs st"
      using P iteration_counters(3) [OF it] by simp
    ultimately show "?P s'" ..
  qed
  then show "\<exists>es. trace st' = trace st @ es \<and> list_all is_loop_call es"
    and "envs st' = envs st"
    by blast+
qed

lemma loop_calls_filter:
  assumes "list_all is_loop_call es" and "\<And>e. is_loop_call e \<Longrightarrow> \<not> P e"
  shows "filter P es = []"
  using assms by (auto simp: list_all_iff filter_empty_conv)

lemma is_loop_call_not:
  assumes "is_loop_call e"
  shows "\<not> is_algo e" and "\<not> is_gym_make e" and "\<not> is_env_seed e"
    and "e \<noteq> ParseArgs" and "e \<noteq> Seed s"
proof -
  show "\<not> is_algo e"
    using assms by (cases e) (simp_all add: is_loop_call_def is_algo_def)
  show "\<not> is_gym_make e"
    using assms by (cases e) (simp_all add: is_loop_call_def is_gym_make_def)
  show "\<not> is_env_seed e"
    using assms by (cases e) (simp_all add: is_loop_call_def is_env_seed_def)
  show "e \<noteq> ParseArgs"
    using assms by (cases e) (simp_all add: is_loop_call_def)
  show "e \<noteq> Seed s"
    using assms by (cases e) (simp_all add: is_loop_call_def)
qed

subsection \<open>The set-up\<close>

lemma py_range_empty: "n \<le> 0 \<Longrightarrow> py_range n = []"
  by (simp add: py_range_def)

lemma py_range_first: "1 \<le> n \<Longrightarrow> \<exists>js. py_range n = 0 # js"
proof -
  assume "1 \<le> n"
  then have "0 < nat n" by simp
  then have "[0..<nat n] = 0 # [Suc 0..<nat n]"
    by (simp add: upt_conv_Cons)
  then show ?thesis by (simp add: py_range_def)
qed

lemma length_py_range: "length (py_range n) = nat n"
  by (simp add: py_range_def)

lemma nth_py_range: "j < nat n \<Longrightarrow> py_range n ! j = int j"
  by (simp add: py_range_def)

lemma env_calls_filter:
  "filter is_algo (env_calls a js) = []"
  "filter is_update (env_calls a js) = []"
  "filter is_gym_make (env_calls a js) = replicate (length js) (GymMake (env a))"
  "filter is_env_seed (env_calls a js) = map (\<lambda>j. EnvSeed j (seed a + j)) js"
  by (induction js)
    (simp_all add: env_calls_def is_algo_def is_update_def is_gym_make_def is_env_seed_def)

lemma define_logger_simps [simp]:
  "trace (define_logger a w st) = trace st @ logger_calls a w"
  "envs (define_logger a w st) = envs st"
  "acmodel (define_logger a w st) = acmodel st"
  "num_frames (define_logger a w st) = 0"
  "loop_i (define_logger a w st) = 0"
  by (simp_all add: define_logger_def logger_calls_def Let_def)

lemma script_setup_no_envs:
  assumes "procs a \<le> 0"
  shows "script_setup a w =
     (Some IndexError, init_state\<lparr>trace := [ParseArgs, Seed (seed a)]\<rparr>)"
  using assms
  by (simp add: script_setup_def Let_def py_range_empty generate_envs_def emit_def
      init_state_def)

lemma script_setup_envs:
  assumes "1 \<le> procs a" and "script_setup a w = (r, st)"
  shows "r = (if algo a = ''a2c'' \<or> algo a = ''ppo'' then None else Some ValueError)"
    and "envs st = map (\<lambda>j. \<lparr>env_id = env a, env_seed = seed a + j\<rparr>) (py_range (procs a))"
    and "acmodel st = Some (if cuda_is_available w then CUDA else CPU)"
    and "num_frames st = 0" and "loop_i st = 0"
    and "trace st = [ParseArgs, Seed (seed a)] @ env_calls a (py_range (procs a)) @
           model_calls a w @
           (if algo a = ''a2c'' then
              A2CAlgo (envs st) (frames_per_proc a) (discount a) (lr a) (gae_tau a)
                (entropy_coef a) (value_loss_coef a) (max_grad_norm a) (recurrence a)
                (optim_alpha a) (optim_eps a) # logger_calls a w
            else if algo a = ''ppo'' then
              PPOAlgo (envs st) (frames_per_proc a) (discount a) (lr a) (gae_tau a)
                (entropy_coef a) (value_loss_coef a) (max_grad_norm a) (recurrence a)
                (optim_eps a) (clip_eps a) (epochs a) (batch_size a) # logger_calls a w
            else [])"
proof -
  from py_range_first [OF assms(1)] obtain js where js: "py_range (procs a) = 0 # js"
    by blast
  note defs = script_setup_def define_algo_def model_calls_def init_state_def Let_def
  from assms(2) js show
    "r = (if algo a = ''a2c'' \<or> algo a = ''ppo'' then None else Some ValueError)"
    by (auto simp: defs split: if_splits)
  from assms(2) js show
    "envs st = map (\<lambda>j. \<lparr>env_id = env a, env_seed = seed a + j\<rparr>) (py_range (procs a))"
    by (auto simp: defs split: if_splits)
  from assms(2) js show "acmodel st = Some (if cuda_is_available w then CUDA else CPU)"
    by (auto simp: defs split: if_splits)
  from assms(2) js show "num_frames st = 0"
    by (auto simp: defs split: if_splits)
  from assms(2) js show "loop_i st = 0"
    by (auto simp: defs split: if_splits)
  from assms(2) js show "trace st = [ParseArgs, Seed (seed a)] @ env_calls a (py_range (procs a)) @
           model_calls a w @
           (if algo a = ''a2c'' then
              A2CAlgo (envs st) (frames_per_proc a) (discount a) (lr a) (gae_tau a)
                (entropy_coef a) (value_loss_coef a) (max_grad_norm a) (recurrence a)
                (optim_alpha a) (optim_eps a) # logger_calls a w
            else if algo a = ''ppo'' then
              PPOAlgo (envs st) (frames_per_proc a) (discount a) (lr a) (gae_tau a)
                (entropy_coef a) (value_loss_coef a) (max_grad_norm a) (recurrence a)
                (optim_eps a) (clip_eps a) (epochs a) (batch_size a) # logger_calls a w
            else [])"
    by (auto simp: defs split: if_splits)
qed

text \<open>A run of the script is its set-up followed by calls of the loop.\<close>

lemma train_script_run:
  assumes "train_script a w = (r, st)"
  obtains r0 st0 es where "script_setup a w = (r0, st0)"
    and "trace st = trace st0 @ es" and "list_all is_loop_call es" and "envs st = envs st0"
    and "\<And>e. r0 = Some e \<Longrightarrow> r = Raised e \<and> st = st0"
    and "r0 = None \<Longrightarrow> train_loop a w (update_parameters w) st0 = (r, st)"
proof -
  obtain r0 st0 where s: "script_setup a w = (r0, st0)"
    by (cases "script_setup a w")
  show ?thesis
  proof (cases r0)
    case None
    with assms s have l: "train_loop a w (update_parameters w) st0 = (r, st)"
      by (simp add: train_script_def)
    from train_loop_calls [OF l] obtain es where
      "trace st = trace st0 @ es" "list_all is_loop_call es" "envs st = envs st0"
      by blast
    then show ?thesis using that [OF s] None l by simp
  next
    case (Some e)
    with assms s have "r = Raised e" "st = st0"
      by (simp_all add: train_script_def)
    then show ?thesis using that [OF s, of "[]"] Some by simp
  qed
qed
subsection \<open>What one round of the loop adds to the trace\<close>

lemma logs_now_dvd: "0 \<le> j \<Longrightarrow> logs_now a (j + 1) \<longleftrightarrow> log_interval a dvd (j + 1)"
  by (auto simp: logs_now_def mod_eq_0_iff_dvd)

lemma saves_now_dvd: "saves_now a j \<longleftrightarrow> 0 < save_interval a \<and> save_interval a dvd j"
  by (auto simp: saves_now_def mod_eq_0_iff_dvd)

lemma logs_now_dvd': "log_interval a \<noteq> 0 \<Longrightarrow> logs_now a j \<longleftrightarrow> log_interval a dvd j"
  by (auto simp: logs_now_def mod_eq_0_iff_dvd)

lemma iteration_log_lines:
  assumes "iteration a w u s = (e, s')"
  shows "list_ex (log_line_at k) (trace s') \<longleftrightarrow>
     list_ex (log_line_at k) (trace s) \<or>
     (logs_now a (loop_i s + 1) \<and> fps_error u = None \<and> k = loop_i s + 1)"
  unfolding iteration_trace [OF assms]
  by (auto simp: log_line_at_def scalar_calls_def save_calls_def)

lemma iteration_scalars:
  assumes "iteration a w u s = (e, s')"
  shows "list_ex (scalar_at k) (trace s') \<longleftrightarrow>
     list_ex (scalar_at k) (trace s) \<or>
     (logs_now a (loop_i s + 1) \<and> fps_error u = None \<and> \<not> no_tb a \<and> k = loop_i s + 1)"
  unfolding iteration_trace [OF assms]
  by (auto simp: scalar_at_def scalar_calls_def save_calls_def)

lemma iteration_tensorboard:
  assumes "iteration a w u s = (e, s')" and "no_tb a"
  shows "list_ex is_tensorboard_call (trace s') \<longleftrightarrow> list_ex is_tensorboard_call (trace s)"
  unfolding iteration_trace [OF assms(1)] using assms(2)
  by (auto simp: is_tensorboard_call_def save_calls_def)

lemma iteration_checkpoint:
  assumes "iteration a w u s = (e, s')"
  shows "filter is_checkpoint_call (emitted s s') =
     (if round_error a (loop_i s + 1) u = None \<and> saves_now a (loop_i s + 1)
      then [VocabSave,
            SaveModel (if cuda_is_available w then map_option (\<lambda>_. CPU) (acmodel s)
                       else acmodel s) (model_name a (strftime_now w))]
      else [])"
proof -
  note tr = iteration_trace [OF assms]
  show ?thesis
    unfolding emitted_append [OF tr]
    by (simp add: is_checkpoint_call_def scalar_calls_def save_calls_def)
qed

lemma iteration_updates:
  assumes "iteration a w u s = (e, s')"
  shows "filter is_update (emitted s s') = [UpdateParameters]"
proof -
  note tr = iteration_trace [OF assms]
  show ?thesis
    unfolding emitted_append [OF tr]
    by (simp add: is_update_def scalar_calls_def save_calls_def)
qed

lemma iteration_this_log_line:
  assumes "iteration a w u s = (e, s')"
  shows "filter (log_line_at k) (emitted s s') =
     (if logs_now a (loop_i s + 1) \<and> fps_error u = None \<and> k = loop_i s + 1
      then [LogLine (loop_i s + 1) (num_frames s + log_num_frames (update_result u))
              (log_metrics (update_result u))]
      else [])"
proof -
  note tr = iteration_trace [OF assms]
  show ?thesis
    unfolding emitted_append [OF tr]
    by (simp add: log_line_at_def scalar_calls_def save_calls_def)
qed

lemma iteration_these_scalars:
  assumes "iteration a w u s = (e, s')"
  shows "list_ex (scalar_at k) (emitted s s') \<longleftrightarrow>
     logs_now a (loop_i s + 1) \<and> fps_error u = None \<and> \<not> no_tb a \<and> k = loop_i s + 1"
proof -
  note tr = iteration_trace [OF assms]
  show ?thesis
    unfolding emitted_append [OF tr]
    by (auto simp: scalar_at_def scalar_calls_def save_calls_def)
qed

subsection \<open>What a run of the loop adds to the trace\<close>

lemma train_loop_Cons_cases [consumes 1, case_names stop raise continue]:
  assumes "train_loop a w (l # ls) st = (r, st')"
  obtains "\<not> num_frames st < frames a" and "r = Finished" and "st' = st"
  | e s' where "num_frames st < frames a" and "iteration a w l st = (Some e, s')"
      and "r = Raised e" and "st' = s'"
  | s' where "num_frames st < frames a" and "iteration a w l st = (None, s')"
      and "train_loop a w ls s' = (r, st')"
proof (cases "num_frames st < frames a")
  case False
  with assms have "r = Finished" "st' = st" by simp_all
  then show ?thesis using False that(1) by blast
next
  case True
  obtain e s' where it: "iteration a w l st = (e, s')"
    by (cases "iteration a w l st")
  show ?thesis
  proof (cases e)
    case None
    with assms True it have "train_loop a w ls s' = (r, st')" by simp
    then show ?thesis using True it None that(3) by blast
  next
    case (Some err)
    with assms True it have "r = Raised err" "st' = s'" by simp_all
    then show ?thesis using True it Some that(2) by blast
  qed
qed

lemma train_loop_log_lines:
  assumes "train_loop a w ls st = (r, st')" and "0 \<le> loop_i st"
    and "\<forall>u \<in> set ls. fps_error u = None"
  shows "loop_i st \<le> loop_i st'"
    and "list_ex (log_line_at k) (trace st') \<longleftrightarrow>
      list_ex (log_line_at k) (trace st) \<or>
      (loop_i st < k \<and> k \<le> loop_i st' \<and> log_interval a dvd k)"
proof -
  let ?P = "\<lambda>s. loop_i st \<le> loop_i s \<and>
     (\<forall>k. list_ex (log_line_at k) (trace s) \<longleftrightarrow>
        list_ex (log_line_at k) (trace st) \<or>
        (loop_i st < k \<and> k \<le> loop_i s \<and> log_interval a dvd k))"
  have "?P st'"
  proof (rule train_loop_invariant [OF assms(1), where P = ?P])
    show "?P st"
    proof (intro conjI allI)
      show "loop_i st \<le> loop_i st" by simp
    next
      fix k
      have "\<not> (loop_i st < k \<and> k \<le> loop_i st)" by linarith
      then show "list_ex (log_line_at k) (trace st) \<longleftrightarrow>
          list_ex (log_line_at k) (trace st) \<or>
          (loop_i st < k \<and> k \<le> loop_i st \<and> log_interval a dvd k)"
        by blast
    qed
  next
    fix l s e s'
    assume m: "l \<in> set ls" and P: "?P s" and it: "iteration a w l s = (e, s')"
    have ok: "fps_error l = None"
      using assms(3) m by simp
    have i: "loop_i s' = loop_i s + 1"
      by (rule iteration_counters(1) [OF it])
    have le: "loop_i st \<le> loop_i s"
      by (rule P [THEN conjunct1])
    have nn: "0 \<le> loop_i s"
      using le assms(2) by simp
    show "?P s'"
    proof (intro conjI allI)
      show "loop_i st \<le> loop_i s'" using le i by simp
    next
      fix k
      define D where "D \<longleftrightarrow> log_interval a dvd k"
      define L where "L \<longleftrightarrow> list_ex (log_line_at k) (trace st)"
      have a1: "list_ex (log_line_at k) (trace s') \<longleftrightarrow>
          list_ex (log_line_at k) (trace s) \<or> (logs_now a (loop_i s + 1) \<and> k = loop_i s + 1)"
        unfolding iteration_log_lines [OF it, of k] using ok by simp
      have a2: "logs_now a (loop_i s + 1) \<longleftrightarrow> D" if "k = loop_i s + 1"
        using logs_now_dvd [OF nn, of a] that by (simp add: D_def)
      have a3: "list_ex (log_line_at k) (trace s) \<longleftrightarrow>
          L \<or> (loop_i st < k \<and> k \<le> loop_i s \<and> D)"
        unfolding D_def L_def by (rule P [THEN conjunct2, THEN spec])
      have "list_ex (log_line_at k) (trace s') \<longleftrightarrow>
          L \<or> (loop_i st < k \<and> k \<le> loop_i s' \<and> D)"
      proof (cases "k = loop_i s + 1")
        case True
        then show ?thesis
          unfolding a1 a3 i using a2 [OF True] le by simp
      next
        case False
        then show ?thesis
          unfolding a1 a3 i by auto
      qed
      then show "list_ex (log_line_at k) (trace s') \<longleftrightarrow>
          list_ex (log_line_at k) (trace st) \<or>
          (loop_i st < k \<and> k \<le> loop_i s' \<and> log_interval a dvd k)"
        by (simp add: D_def L_def)
    qed
  qed
  then show "loop_i st \<le> loop_i st'"
    and "list_ex (log_line_at k) (trace st') \<longleftrightarrow>
      list_ex (log_line_at k) (trace st) \<or>
      (loop_i st < k \<and> k \<le> loop_i st' \<and> log_interval a dvd k)"
    by simp_all
qed

lemma train_loop_scalars:
  assumes "train_loop a w ls st = (r, st')"
    and "\<And>k. list_ex (scalar_at k) (trace st) \<longleftrightarrow>
           \<not> no_tb a \<and> list_ex (log_line_at k) (trace st)"
  shows "list_ex (scalar_at k) (trace st') \<longleftrightarrow>
           \<not> no_tb a \<and> list_ex (log_line_at k) (trace st')"
proof -
  let ?P = "\<lambda>s. \<forall>k. list_ex (scalar_at k) (trace s) \<longleftrightarrow>
           \<not> no_tb a \<and> list_ex (log_line_at k) (trace s)"
  have "?P st'"
  proof (rule train_loop_invariant [OF assms(1), where P = ?P])
    show "?P st" using assms(2) by simp
  next
    fix l s e s'
    assume P: "?P s" and it: "iteration a w l s = (e, s')"
    show "?P s'"
      unfolding iteration_scalars [OF it] iteration_log_lines [OF it] using P by auto
  qed
  then show ?thesis by simp
qed

lemma train_loop_no_tensorboard:
  assumes "train_loop a w ls st = (r, st')" and "no_tb a"
    and "\<not> list_ex is_tensorboard_call (trace st)"
  shows "\<not> list_ex is_tensorboard_call (trace st')"
proof (rule train_loop_invariant [OF assms(1)])
  show "\<not> list_ex is_tensorboard_call (trace st)" by (rule assms(3))
next
  fix l s e s'
  assume n: "\<not> list_ex is_tensorboard_call (trace s)" and it: "iteration a w l s = (e, s')"
  show "\<not> list_ex is_tensorboard_call (trace s')"
    unfolding iteration_tensorboard [OF it assms(2)] by (rule n)
qed

lemma train_loop_no_checkpoint:
  assumes "train_loop a w ls st = (r, st')" and "save_interval a \<le> 0"
    and "\<not> list_ex is_checkpoint_call (trace st)"
  shows "\<not> list_ex is_checkpoint_call (trace st')"
proof (rule train_loop_invariant [OF assms(1)])
  show "\<not> list_ex is_checkpoint_call (trace st)" by (rule assms(3))
next
  fix l s e s'
  assume n: "\<not> list_ex is_checkpoint_call (trace s)" and it: "iteration a w l s = (e, s')"
  have "\<not> saves_now a (loop_i s + 1)"
    using assms(2) by (simp add: saves_now_def)
  then show "\<not> list_ex is_checkpoint_call (trace s')"
    unfolding iteration_trace [OF it] using n
    by (simp add: is_checkpoint_call_def scalar_calls_def)
qed

lemma train_loop_acmodel:
  assumes "train_loop a w ls st = (r, st')"
    and "acmodel st = Some (if cuda_is_available w then CUDA else CPU)"
  shows "acmodel st' = Some (if cuda_is_available w then CUDA else CPU)"
proof (rule train_loop_invariant [OF assms(1)])
  show "acmodel st = Some (if cuda_is_available w then CUDA else CPU)" by (rule assms(2))
next
  fix l s e s'
  assume d: "acmodel s = Some (if cuda_is_available w then CUDA else CPU)"
    and it: "iteration a w l s = (e, s')"
  show "acmodel s' = Some (if cuda_is_available w then CUDA else CPU)"
    unfolding iteration_acmodel [OF it] using d by simp
qed

lemma train_loop_counters:
  assumes "train_loop a w ls st = (r, st')"
  shows "\<exists>k \<le> length ls. loop_i st' = loop_i st + int k \<and>
     num_frames st' = num_frames st + sum_list (map (\<lambda>u. log_num_frames (update_result u)) (take k ls)) \<and>
     length (filter is_update (emitted st st')) = k"
  using assms
proof (induction ls arbitrary: st)
  case Nil
  then show ?case by (auto simp: emitted_def split: if_splits)
next
  case (Cons l ls)
  show ?case
  proof (cases "num_frames st < frames a")
    case False
    with Cons.prems have "st' = st" by simp
    then show ?thesis by (auto simp: emitted_def)
  next
    case True
    obtain e s' where it: "iteration a w l st = (e, s')"
      by (cases "iteration a w l st")
    note c = iteration_counters [OF it]
    note tr = iteration_trace [OF it]
    from tr obtain es where es: "trace s' = trace st @ es" by blast
    have up: "filter is_update es = [UpdateParameters]"
      using iteration_updates [OF it] emitted_append [OF es] by simp
    show ?thesis
    proof (cases e)
      case (Some err)
      with Cons.prems True it have "st' = s'" by simp
      then have "Suc 0 \<le> length (l # ls) \<and> loop_i st' = loop_i st + int (Suc 0) \<and>
          num_frames st' = num_frames st + sum_list (map (\<lambda>u. log_num_frames (update_result u)) (take (Suc 0) (l # ls))) \<and>
          length (filter is_update (emitted st st')) = Suc 0"
        using c up emitted_append [OF es] by simp
      then show ?thesis by blast
    next
      case None
      with Cons.prems True it have l: "train_loop a w ls s' = (r, st')" by simp
      from Cons.IH [OF l] obtain k where k: "k \<le> length ls"
        "loop_i st' = loop_i s' + int k"
        "num_frames st' = num_frames s' + sum_list (map (\<lambda>u. log_num_frames (update_result u)) (take k ls))"
        "length (filter is_update (emitted s' st')) = k"
        by blast
      from train_loop_calls(1) [OF l] obtain es' where es': "trace st' = trace s' @ es'"
        by blast
      have "emitted st st' = es @ es'" "emitted s' st' = es'"
        using es es' by (simp_all add: emitted_def)
      then have "Suc k \<le> length (l # ls) \<and> loop_i st' = loop_i st + int (Suc k) \<and>
          num_frames st' = num_frames st + sum_list (map (\<lambda>u. log_num_frames (update_result u)) (take (Suc k) (l # ls))) \<and>
          length (filter is_update (emitted st st')) = Suc k"
        using k c up by simp
      then show ?thesis by blast
    qed
  qed
qed

lemma train_loop_guard:
  assumes "train_loop a w ls st = (r, st')"
  shows "(r = Finished \<longrightarrow> frames a \<le> num_frames st') \<and>
     (r = Starved \<longrightarrow> num_frames st' < frames a)"
  using assms
proof (induction ls arbitrary: st)
  case Nil
  show ?case
  proof (cases "num_frames st < frames a")
    case True
    with Nil have "r = Starved" "st' = st" by simp_all
    then show ?thesis using True by simp
  next
    case False
    with Nil have "r = Finished" "st' = st" by simp_all
    then show ?thesis using False by simp
  qed
next
  case (Cons l ls)
  from Cons.prems show ?case
  proof (cases rule: train_loop_Cons_cases)
    case stop
    then show ?thesis by simp
  next
    case (raise e s')
    then show ?thesis by simp
  next
    case (continue s')
    then show ?thesis using Cons.IH by blast
  qed
qed

text \<open>A loop that is given enough updates of at least one frame each ends or raises.\<close>

lemma train_loop_not_starved:
  assumes "\<forall>u \<in> set ls. 1 \<le> log_num_frames (update_result u)"
    and "frames a - num_frames st \<le> int (length ls)"
  shows "fst (train_loop a w ls st) \<noteq> Starved"
  using assms
proof (induction ls arbitrary: st)
  case Nil
  then show ?case by simp
next
  case (Cons l ls)
  obtain r st' where run: "train_loop a w (l # ls) st = (r, st')"
    by (cases "train_loop a w (l # ls) st")
  from run have "r \<noteq> Starved"
  proof (cases rule: train_loop_Cons_cases)
    case stop
    then show ?thesis by simp
  next
    case (raise e s')
    then show ?thesis by simp
  next
    case (continue s')
    note c = iteration_counters [OF continue(2)]
    have l1: "1 \<le> log_num_frames (update_result l)"
      using Cons.prems(1) by simp
    have "frames a - num_frames s' \<le> int (length ls)"
      using Cons.prems(2) c(2) l1 by simp
    moreover have "\<forall>u \<in> set ls. 1 \<le> log_num_frames (update_result u)"
      using Cons.prems(1) by simp
    ultimately have "fst (train_loop a w ls s') \<noteq> Starved"
      by (rule Cons.IH [rotated])
    then show ?thesis using continue(3) by simp
  qed
  then show ?case using run by simp
qed

text \<open>A loop whose rounds do not raise does not raise.\<close>

lemma train_loop_no_raise:
  assumes "train_loop a w ls st = (r, st')"
    and "log_interval a \<noteq> 0" and "\<forall>u \<in> set ls. fps_error u = None"
  shows "r \<noteq> Raised e"
  using assms(1,3)
proof (induction ls arbitrary: st)
  case Nil
  then show ?case by (simp split: if_splits)
next
  case (Cons l ls)
  from Cons.prems(1) show ?case
  proof (cases rule: train_loop_Cons_cases)
    case stop
    then show ?thesis by simp
  next
    case (raise e' s')
    have "round_error a (loop_i st + 1) l = None"
      using assms(2) Cons.prems(2) by (simp add: round_error_def)
    then show ?thesis using iteration_raises [OF raise(2)] by simp
  next
    case (continue s')
    then show ?thesis using Cons.IH Cons.prems(2) by simp
  qed
qed

subsection \<open>The trace of the set-up\<close>

lemma script_setup_cases [consumes 1, case_names no_envs envs]:
  assumes "script_setup a w = (r0, st0)"
  obtains "procs a \<le> 0" and "r0 = Some IndexError"
      and "st0 = init_state\<lparr>trace := [ParseArgs, Seed (seed a)]\<rparr>"
  | "1 \<le> procs a"
proof (cases "procs a \<le> 0")
  case True
  from script_setup_no_envs [OF True, of w] assms
  have "r0 = Some IndexError" "st0 = init_state\<lparr>trace := [ParseArgs, Seed (seed a)]\<rparr>"
    by simp_all
  then show ?thesis using True that(1) by blast
next
  case False
  then have "1 \<le> procs a" by simp
  then show ?thesis by (rule that(2))
qed

lemma env_calls_quiet:
  "\<not> list_ex is_checkpoint_call (env_calls a js)"
  "\<not> list_ex is_tensorboard_call (env_calls a js)"
  "\<not> list_ex (log_line_at k) (env_calls a js)"
  "\<not> list_ex (scalar_at k) (env_calls a js)"
  by (induction js)
    (simp_all add: env_calls_def is_checkpoint_call_def is_tensorboard_call_def
      log_line_at_def scalar_at_def)

lemma script_setup_quiet:
  assumes "script_setup a w = (r0, st0)"
  shows "\<not> list_ex is_checkpoint_call (trace st0)"
    and "\<not> list_ex (log_line_at k) (trace st0)"
    and "\<not> list_ex (scalar_at k) (trace st0)"
    and "filter is_update (trace st0) = []"
    and "no_tb a \<Longrightarrow> \<not> list_ex is_tensorboard_call (trace st0)"
    and "num_frames st0 = 0" and "loop_i st0 = 0"
proof -
  show "\<not> list_ex is_checkpoint_call (trace st0)"
    using assms
  proof (cases rule: script_setup_cases)
    case no_envs
    then show ?thesis by (simp add: init_state_def is_checkpoint_call_def)
  next
    case envs
    show ?thesis
      unfolding script_setup_envs(6) [OF envs assms]
      by (simp add: env_calls_quiet is_checkpoint_call_def model_calls_def logger_calls_def)
  qed
  show "\<not> list_ex (log_line_at k) (trace st0)"
    using assms
  proof (cases rule: script_setup_cases)
    case no_envs
    then show ?thesis by (simp add: init_state_def log_line_at_def)
  next
    case envs
    show ?thesis
      unfolding script_setup_envs(6) [OF envs assms]
      by (simp add: env_calls_quiet log_line_at_def model_calls_def logger_calls_def)
  qed
  show "\<not> list_ex (scalar_at k) (trace st0)"
    using assms
  proof (cases rule: script_setup_cases)
    case no_envs
    then show ?thesis by (simp add: init_state_def scalar_at_def)
  next
    case envs
    show ?thesis
      unfolding script_setup_envs(6) [OF envs assms]
      by (simp add: env_calls_quiet scalar_at_def model_calls_def logger_calls_def)
  qed
  show "filter is_update (trace st0) = []"
    using assms
  proof (cases rule: script_setup_cases)
    case no_envs
    then show ?thesis by (simp add: init_state_def is_update_def)
  next
    case envs
    show ?thesis
      unfolding script_setup_envs(6) [OF envs assms]
      by (simp add: env_calls_filter is_update_def model_calls_def logger_calls_def)
  qed
  show "\<not> list_ex is_tensorboard_call (trace st0)" if "no_tb a"
    using assms
  proof (cases rule: script_setup_cases)
    case no_envs
    then show ?thesis by (simp add: init_state_def is_tensorboard_call_def)
  next
    case envs
    show ?thesis
      unfolding script_setup_envs(6) [OF envs assms] using that
      by (simp add: env_calls_quiet is_tensorboard_call_def model_calls_def logger_calls_def)
  qed
  show "num_frames st0 = 0"
    using assms
  proof (cases rule: script_setup_cases)
    case no_envs
    then show ?thesis by (simp add: init_state_def)
  next
    case envs
    show ?thesis by (rule script_setup_envs(4) [OF envs assms])
  qed
  show "loop_i st0 = 0"
    using assms
  proof (cases rule: script_setup_cases)
    case no_envs
    then show ?thesis by (simp add: init_state_def)
  next
    case envs
    show ?thesis by (rule script_setup_envs(5) [OF envs assms])
  qed
qed

text \<open>The log lines and the tensorboard scalars of a whole run.\<close>

lemma train_script_log_lines:
  assumes "train_script a w = (r, st)"
    and "\<forall>u \<in> set (update_parameters w). fps_error u = None"
  shows "list_ex (log_line_at k) (trace st) \<longleftrightarrow>
     1 \<le> k \<and> k \<le> loop_i st \<and> log_interval a dvd k"
proof -
  from train_script_run [OF assms(1)] obtain r0 st0 es where
    s: "script_setup a w = (r0, st0)"
    and err: "\<And>e. r0 = Some e \<Longrightarrow> r = Raised e \<and> st = st0"
    and run: "r0 = None \<Longrightarrow> train_loop a w (update_parameters w) st0 = (r, st)"
    by metis
  note q = script_setup_quiet [OF s]
  show ?thesis
  proof (cases r0)
    case (Some e)
    with err have "st = st0" by simp
    then show ?thesis using q(2) [of k] q(7) by simp
  next
    case None
    have z: "0 \<le> loop_i st0" using q(7) by simp
    show ?thesis
      unfolding train_loop_log_lines(2) [OF run [OF None] z assms(2)] using q(2) [of k] q(7)
      by auto
  qed
qed

lemma train_script_scalars:
  assumes "train_script a w = (r, st)"
  shows "list_ex (scalar_at k) (trace st) \<longleftrightarrow>
     \<not> no_tb a \<and> list_ex (log_line_at k) (trace st)"
proof -
  from train_script_run [OF assms] obtain r0 st0 es where
    s: "script_setup a w = (r0, st0)"
    and err: "\<And>e. r0 = Some e \<Longrightarrow> r = Raised e \<and> st = st0"
    and run: "r0 = None \<Longrightarrow> train_loop a w (update_parameters w) st0 = (r, st)"
    by metis
  note q = script_setup_quiet [OF s]
  show ?thesis
  proof (cases r0)
    case (Some e)
    with err have "st = st0" by simp
    then show ?thesis using q(2) [of k] q(3) [of k] by simp
  next
    case None
    show ?thesis
    proof (rule train_loop_scalars [OF run [OF None]])
      fix j
      show "list_ex (scalar_at j) (trace st0) \<longleftrightarrow>
          \<not> no_tb a \<and> list_ex (log_line_at j) (trace st0)"
        using q(2) [of j] q(3) [of j] by simp
    qed
  qed
qed

subsection \<open>Runs of the small example\<close>

lemma demo_run_a2c_envs:
  "envs (snd (train_script (demo_args\<lparr>algo := ''a2c''\<rparr>) demo_world)) =
     [\<lparr>env_id = ''MiniGrid-Empty-8x8-v0'', env_seed = 1\<rparr>,
      \<lparr>env_id = ''MiniGrid-Empty-8x8-v0'', env_seed = 2\<rparr>]"
  by code_simp

lemma demo_run_ppo_envs:
  "envs (snd (train_script demo_args demo_world)) =
     [\<lparr>env_id = ''MiniGrid-Empty-8x8-v0'', env_seed = 1\<rparr>,
      \<lparr>env_id = ''MiniGrid-Empty-8x8-v0'', env_seed = 2\<rparr>]"
  by code_simp

subsection \<open>The claims\<close>

text \<open>
  C8. The claim: the time stamp is in the log name exactly once; when \<^verbatim>\<open>--model\<close> is given
  the log name is \<^verbatim>\<open>args.model + "_" + suffix\<close>. With \<^verbatim>\<open>--model ""\<close> line 78 takes the
  empty name for no name and builds the default, which ends in the time stamp, while
  line 106 takes it for a name and appends the time stamp again: the log name is the
  default model name followed by a second time stamp.
\<close>

theorem log_name_empty_model:
  "log_name (a\<lparr>model := Some []\<rparr>) suffix =
     env a @ ''_'' @ algo a @ ''_'' @ suffix @ ''_'' @ suffix"
  by (simp add: log_name_def model_name_def default_model_name_def)

text \<open>For every other value of \<^verbatim>\<open>--model\<close> the log name is as C8 says.\<close>

lemma log_name_given:
  "m \<noteq> [] \<Longrightarrow> log_name (a\<lparr>model := Some m\<rparr>) suffix = m @ ''_'' @ suffix"
  by (simp add: log_name_def model_name_def)

lemma log_name_default:
  "model_name (a\<lparr>model := None\<rparr>) suffix = env a @ ''_'' @ algo a @ ''_'' @ suffix"
  "log_name (a\<lparr>model := None\<rparr>) suffix = model_name (a\<lparr>model := None\<rparr>) suffix"
  by (simp_all add: log_name_def model_name_def default_model_name_def)

text \<open>
  C2. With \<open>procs \<ge> 1\<close>, whatever the run does afterwards: the list \<^verbatim>\<open>envs\<close> has
  \<open>procs\<close> elements, the one at index \<open>j\<close> was made from \<^verbatim>\<open>args.env\<close> and seeded with
  \<^verbatim>\<open>args.seed + j\<close>; the run calls \<^verbatim>\<open>gym.make\<close> \<open>procs\<close> times, each time on
  \<^verbatim>\<open>args.env\<close>, and its calls of \<^verbatim>\<open>env.seed\<close> are, in order, those of the indices
  \<open>0, ..., procs - 1\<close> with the seeds \<^verbatim>\<open>args.seed + j\<close>.
\<close>

theorem envs_construction:
  assumes "1 \<le> procs a" and "train_script a w = (r, st)"
  shows "int (length (envs st)) = procs a \<and>
     (\<forall>j < length (envs st). envs st ! j = \<lparr>env_id = env a, env_seed = seed a + int j\<rparr>) \<and>
     filter is_gym_make (trace st) = replicate (nat (procs a)) (GymMake (env a)) \<and>
     filter is_env_seed (trace st) = map (\<lambda>j. EnvSeed j (seed a + j)) (py_range (procs a))"
proof -
  from train_script_run [OF assms(2)] obtain r0 st0 es where
    s: "script_setup a w = (r0, st0)" and tr: "trace st = trace st0 @ es"
    and es: "list_all is_loop_call es" and en: "envs st = envs st0"
    by metis
  note su = script_setup_envs [OF assms(1) s]
  have e: "envs st = map (\<lambda>j. \<lparr>env_id = env a, env_seed = seed a + j\<rparr>) (py_range (procs a))"
    using en su(2) by simp
  have len: "int (length (envs st)) = procs a"
    using e assms(1) by (simp add: length_py_range)
  have nth: "\<forall>j < length (envs st). envs st ! j = \<lparr>env_id = env a, env_seed = seed a + int j\<rparr>"
    using e by (simp add: length_py_range nth_py_range)
  have no_make: "filter is_gym_make es = []"
    using es by (rule loop_calls_filter) (rule is_loop_call_not)
  have no_seed: "filter is_env_seed es = []"
    using es by (rule loop_calls_filter) (rule is_loop_call_not)
  have mk: "filter is_gym_make (trace st0) = replicate (nat (procs a)) (GymMake (env a))"
    unfolding su(6)
    by (simp add: env_calls_filter length_py_range is_gym_make_def model_calls_def
        logger_calls_def)
  have sd: "filter is_env_seed (trace st0) =
      map (\<lambda>j. EnvSeed j (seed a + j)) (py_range (procs a))"
    unfolding su(6)
    by (simp add: env_calls_filter is_env_seed_def model_calls_def logger_calls_def)
  show ?thesis
    using len nth mk sd no_make no_seed tr by simp
qed

theorem envs_construction_witness:
  "1 \<le> procs demo_args \<and>
   envs (snd (train_script demo_args demo_world)) =
     [\<lparr>env_id = ''MiniGrid-Empty-8x8-v0'', env_seed = 1\<rparr>,
      \<lparr>env_id = ''MiniGrid-Empty-8x8-v0'', env_seed = 2\<rparr>] \<and>
   filter is_gym_make (trace (snd (train_script demo_args demo_world))) =
     [GymMake ''MiniGrid-Empty-8x8-v0'', GymMake ''MiniGrid-Empty-8x8-v0''] \<and>
   filter is_env_seed (trace (snd (train_script demo_args demo_world))) =
     [EnvSeed 0 1, EnvSeed 1 2]"
proof -
  have p: "1 \<le> procs demo_args"
    by (simp add: demo_args_def)
  have run: "train_script demo_args demo_world =
      (fst (train_script demo_args demo_world), snd (train_script demo_args demo_world))"
    by simp
  have r: "py_range 2 = [0, 1]"
    by (simp add: py_range_def upt_conv_Cons)
  have "nat (procs demo_args) = Suc (Suc 0)" "seed demo_args = 1" "procs demo_args = 2"
    "env demo_args = ''MiniGrid-Empty-8x8-v0''"
    by (simp_all add: demo_args_def)
  with envs_construction [OF p run] demo_run_ppo_envs p r show ?thesis
    by (simp add: numeral_2_eq_2)
qed

text \<open>
  C1, as amended. With \<open>procs \<ge> 1\<close>: when \<^verbatim>\<open>args.algo\<close> is \<^verbatim>\<open>"a2c"\<close> the run constructs
  one algorithm object, an \<^verbatim>\<open>A2CAlgo\<close> on the environments and the hyperparameters of
  lines 93--95; when it is \<^verbatim>\<open>"ppo"\<close>, one \<^verbatim>\<open>PPOAlgo\<close> on those of lines 97--100; for
  every other value the script raises \<^verbatim>\<open>ValueError\<close>, having constructed no algorithm
  object and run no update.
\<close>

theorem algo_selection:
  assumes "1 \<le> procs a" and "train_script a w = (r, st)"
  shows "(algo a = ''a2c'' \<longrightarrow>
       filter is_algo (trace st) =
         [A2CAlgo (envs st) (frames_per_proc a) (discount a) (lr a) (gae_tau a)
            (entropy_coef a) (value_loss_coef a) (max_grad_norm a) (recurrence a)
            (optim_alpha a) (optim_eps a)]) \<and>
     (algo a = ''ppo'' \<longrightarrow>
       filter is_algo (trace st) =
         [PPOAlgo (envs st) (frames_per_proc a) (discount a) (lr a) (gae_tau a)
            (entropy_coef a) (value_loss_coef a) (max_grad_norm a) (recurrence a)
            (optim_eps a) (clip_eps a) (epochs a) (batch_size a)]) \<and>
     (algo a \<noteq> ''a2c'' \<and> algo a \<noteq> ''ppo'' \<longrightarrow>
       r = Raised ValueError \<and> filter is_algo (trace st) = [] \<and>
       filter is_update (trace st) = [])"
proof -
  from train_script_run [OF assms(2)] obtain r0 st0 es where
    s: "script_setup a w = (r0, st0)" and tr: "trace st = trace st0 @ es"
    and es: "list_all is_loop_call es" and en: "envs st = envs st0"
    and err: "\<And>e. r0 = Some e \<Longrightarrow> r = Raised e \<and> st = st0"
    by metis
  note su = script_setup_envs [OF assms(1) s]
  have no_algo: "filter is_algo es = []"
    using es by (rule loop_calls_filter) (rule is_loop_call_not)
  have pre: "filter is_algo ([ParseArgs, Seed (seed a)] @ env_calls a (py_range (procs a)) @
      model_calls a w) = []"
    by (simp add: env_calls_filter is_algo_def model_calls_def)
  have post: "filter is_algo (logger_calls a w) = []"
    by (simp add: is_algo_def logger_calls_def)
  have a2c: "filter is_algo (trace st) =
         [A2CAlgo (envs st) (frames_per_proc a) (discount a) (lr a) (gae_tau a)
            (entropy_coef a) (value_loss_coef a) (max_grad_norm a) (recurrence a)
            (optim_alpha a) (optim_eps a)]" if "algo a = ''a2c''"
  proof -
    have "filter is_algo (trace st0) =
         [A2CAlgo (envs st0) (frames_per_proc a) (discount a) (lr a) (gae_tau a)
            (entropy_coef a) (value_loss_coef a) (max_grad_norm a) (recurrence a)
            (optim_alpha a) (optim_eps a)]"
      using that pre post unfolding su(6) by (simp add: is_algo_def)
    then show ?thesis using tr no_algo en by simp
  qed
  have ppo: "filter is_algo (trace st) =
         [PPOAlgo (envs st) (frames_per_proc a) (discount a) (lr a) (gae_tau a)
            (entropy_coef a) (value_loss_coef a) (max_grad_norm a) (recurrence a)
            (optim_eps a) (clip_eps a) (epochs a) (batch_size a)]" if "algo a = ''ppo''"
  proof -
    have "filter is_algo (trace st0) =
         [PPOAlgo (envs st0) (frames_per_proc a) (discount a) (lr a) (gae_tau a)
            (entropy_coef a) (value_loss_coef a) (max_grad_norm a) (recurrence a)
            (optim_eps a) (clip_eps a) (epochs a) (batch_size a)]"
      using that pre post unfolding su(6) by (simp add: is_algo_def)
    then show ?thesis using tr no_algo en by simp
  qed
  have other: "r = Raised ValueError \<and> filter is_algo (trace st) = [] \<and>
       filter is_update (trace st) = []" if "algo a \<noteq> ''a2c''" "algo a \<noteq> ''ppo''"
  proof -
    from that su(1) have "r0 = Some ValueError" by simp
    from err [OF this] have r: "r = Raised ValueError" and st: "st = st0" by simp_all
    have "filter is_algo (trace st0) = []"
      using that pre unfolding su(6) by simp
    moreover have "filter is_update (trace st0) = []"
      using that unfolding su(6)
      by (simp add: env_calls_filter is_update_def model_calls_def)
    ultimately show ?thesis using r st by simp
  qed
  show ?thesis using a2c ppo other by blast
qed

theorem algo_selection_witness:
  "1 \<le> procs demo_args \<and>
   filter is_algo (trace (snd (train_script (demo_args\<lparr>algo := ''a2c''\<rparr>) demo_world))) =
     [A2CAlgo [\<lparr>env_id = ''MiniGrid-Empty-8x8-v0'', env_seed = 1\<rparr>,
               \<lparr>env_id = ''MiniGrid-Empty-8x8-v0'', env_seed = 2\<rparr>]
        None () () () () () () 1 () ()] \<and>
   filter is_algo (trace (snd (train_script demo_args demo_world))) =
     [PPOAlgo [\<lparr>env_id = ''MiniGrid-Empty-8x8-v0'', env_seed = 1\<rparr>,
               \<lparr>env_id = ''MiniGrid-Empty-8x8-v0'', env_seed = 2\<rparr>]
        None () () () () () () 1 () () 4 256] \<and>
   fst (train_script (demo_args\<lparr>algo := ''dqn''\<rparr>) demo_world) = Raised ValueError \<and>
   filter is_update (trace (snd (train_script (demo_args\<lparr>algo := ''dqn''\<rparr>) demo_world))) = []"
proof -
  have run: "train_script b demo_world =
      (fst (train_script b demo_world), snd (train_script b demo_world))" for b :: "unit args"
    by simp
  have p: "1 \<le> procs demo_args" "1 \<le> procs (demo_args\<lparr>algo := ''a2c''\<rparr>)"
    "1 \<le> procs (demo_args\<lparr>algo := ''dqn''\<rparr>)"
    by (simp_all add: demo_args_def)
  have "filter is_algo (trace (snd (train_script (demo_args\<lparr>algo := ''a2c''\<rparr>) demo_world))) =
     [A2CAlgo [\<lparr>env_id = ''MiniGrid-Empty-8x8-v0'', env_seed = 1\<rparr>,
               \<lparr>env_id = ''MiniGrid-Empty-8x8-v0'', env_seed = 2\<rparr>]
        None () () () () () () 1 () ()]"
    using algo_selection [OF p(2) run] demo_run_a2c_envs by (simp add: demo_args_def)
  moreover have "filter is_algo (trace (snd (train_script demo_args demo_world))) =
     [PPOAlgo [\<lparr>env_id = ''MiniGrid-Empty-8x8-v0'', env_seed = 1\<rparr>,
               \<lparr>env_id = ''MiniGrid-Empty-8x8-v0'', env_seed = 2\<rparr>]
        None () () () () () () 1 () () 4 256]"
    using algo_selection [OF p(1) run] demo_run_ppo_envs by (simp add: demo_args_def)
  moreover have
    "fst (train_script (demo_args\<lparr>algo := ''dqn''\<rparr>) demo_world) = Raised ValueError \<and>
     filter is_update (trace (snd (train_script (demo_args\<lparr>algo := ''dqn''\<rparr>) demo_world))) = []"
    using algo_selection [OF p(3) run] by (simp add: demo_args_def)
  ultimately show ?thesis using p(1) by simp
qed

text \<open>
  C1 as stated, for every parsed argument set, fails at \<^verbatim>\<open>--procs 0\<close>: no environment is
  built, \<^verbatim>\<open>envs[0]\<close> on line 82 raises \<^verbatim>\<open>IndexError\<close> before line 92 is reached, so with
  \<^verbatim>\<open>--algo a2c\<close> no algorithm object is constructed, and with an unknown algorithm the
  exception is not \<^verbatim>\<open>ValueError\<close>.
\<close>

theorem algo_selection_without_envs:
  "fst (train_script (demo_args\<lparr>algo := ''a2c'', procs := 0\<rparr>) demo_world) = Raised IndexError \<and>
   filter is_algo
     (trace (snd (train_script (demo_args\<lparr>algo := ''a2c'', procs := 0\<rparr>) demo_world))) = [] \<and>
   fst (train_script (demo_args\<lparr>algo := ''dqn'', procs := 0\<rparr>) demo_world) = Raised IndexError"
  by (simp add: train_script_def script_setup_no_envs demo_args_def init_state_def is_algo_def)

text \<open>
  C4, as amended. A round of the loop that starts with the counter \<open>i \<ge> 0\<close> makes update
  number \<open>i + 1\<close>, and it prints the log line of update \<open>k\<close> exactly when \<open>k\<close> is that
  number, is a multiple of \<^verbatim>\<open>args.log_interval\<close>, and the division of line 136 does not
  raise: \<^verbatim>\<open>log["num_frames"]\<close> converts to a float and the two clock readings around the
  update differ. The line carries the new counter, the accumulated frame count and the
  metrics of this update. Over a whole run in which line 136 can raise at no update, the
  log line of update \<open>k\<close> is in the trace exactly when \<open>k\<close> is one of the updates made,
  counted from 1, and a multiple of \<^verbatim>\<open>args.log_interval\<close>.
\<close>

theorem log_line_interval:
  "(0 \<le> loop_i st \<and> iteration a w u st = (r, st') \<longrightarrow>
      loop_i st' = loop_i st + 1 \<and>
      filter (log_line_at k) (emitted st st') =
        (if log_interval a dvd loop_i st' \<and> fps_error u = None \<and> k = loop_i st'
         then [LogLine (loop_i st') (num_frames st') (log_metrics (update_result u))]
         else [])) \<and>
   ((\<forall>u \<in> set (update_parameters w). fps_error u = None) \<longrightarrow>
      (list_ex (log_line_at k) (trace (snd (train_script a w))) \<longleftrightarrow>
         1 \<le> k \<and> k \<le> loop_i (snd (train_script a w)) \<and> log_interval a dvd k))"
proof (intro conjI impI)
  assume h: "0 \<le> loop_i st \<and> iteration a w u st = (r, st')"
  then have nn: "0 \<le> loop_i st" and it: "iteration a w u st = (r, st')"
    by simp_all
  note c = iteration_counters [OF it]
  show "loop_i st' = loop_i st + 1" by (rule c(1))
  show "filter (log_line_at k) (emitted st st') =
        (if log_interval a dvd loop_i st' \<and> fps_error u = None \<and> k = loop_i st'
         then [LogLine (loop_i st') (num_frames st') (log_metrics (update_result u))]
         else [])"
    unfolding iteration_this_log_line [OF it] c(1) c(2) logs_now_dvd [OF nn] by simp
next
  assume ok: "\<forall>u \<in> set (update_parameters w). fps_error u = None"
  have run: "train_script a w = (fst (train_script a w), snd (train_script a w))"
    by simp
  show "list_ex (log_line_at k) (trace (snd (train_script a w))) \<longleftrightarrow>
      1 \<le> k \<and> k \<le> loop_i (snd (train_script a w)) \<and> log_interval a dvd k"
    by (rule train_script_log_lines [OF run ok])
qed

theorem log_line_interval_witness:
  "0 \<le> loop_i (init_state\<lparr>loop_i := 1\<rparr> :: (unit, unit) state) \<and>
   fps_error (demo_update 2) = None \<and>
   filter (log_line_at 2)
     (emitted (init_state\<lparr>loop_i := 1\<rparr>)
        (snd (iteration (demo_args\<lparr>log_interval := 2\<rparr>) demo_world (demo_update 2)
           (init_state\<lparr>loop_i := 1\<rparr>)))) = [LogLine 2 2 ()] \<and>
   filter (log_line_at 1)
     (emitted init_state
        (snd (iteration (demo_args\<lparr>log_interval := 2\<rparr>) demo_world (demo_update 2)
           init_state))) = [] \<and>
   list_all (\<lambda>u. fps_error u = None) (update_parameters demo_world) \<and>
   list_ex (log_line_at 2) (trace (snd (train_script demo_args demo_world)))"
proof -
  let ?a = "demo_args\<lparr>log_interval := 2\<rparr>"
  let ?s1 = "init_state\<lparr>loop_i := 1\<rparr> :: (unit, unit) state"
  let ?s0 = "init_state :: (unit, unit) state"
  have n1: "0 \<le> loop_i ?s1" and n0: "0 \<le> loop_i ?s0"
    by (simp_all add: init_state_def)
  have ok: "fps_error (demo_update 2) = None"
    by code_simp
  have all: "list_all (\<lambda>u. fps_error u = None) (update_parameters demo_world)"
    using ok by (simp add: demo_world_def)
  have f: "num_frames (snd (iteration ?a demo_world (demo_update 2) ?s1)) = 2"
    using iteration_counters(2) [OF prod.collapse [symmetric], of ?a demo_world "demo_update 2" ?s1]
    by (simp add: init_state_def demo_update_def demo_log_def)
  have li: "log_interval ?a = 2" "log_interval demo_args = 1"
    by (simp_all add: demo_args_def)
  have m: "log_metrics (update_result (demo_update 2)) = ()"
    by simp
  have ev: "loop_i (snd (train_script demo_args demo_world)) = 2"
    by code_simp
  from log_line_interval [where st = ?s1 and a = ?a and w = demo_world and u = "demo_update 2"
      and r = "fst (iteration ?a demo_world (demo_update 2) ?s1)"
      and st' = "snd (iteration ?a demo_world (demo_update 2) ?s1)" and k = 2] n1
  have "filter (log_line_at 2) (emitted ?s1 (snd (iteration ?a demo_world (demo_update 2) ?s1))) =
      [LogLine 2 2 ()]"
    using f li ok by (simp add: init_state_def)
  moreover
  from log_line_interval [where st = ?s0 and a = ?a and w = demo_world and u = "demo_update 2"
      and r = "fst (iteration ?a demo_world (demo_update 2) ?s0)"
      and st' = "snd (iteration ?a demo_world (demo_update 2) ?s0)" and k = 1] n0
  have "filter (log_line_at 1) (emitted ?s0 (snd (iteration ?a demo_world (demo_update 2) ?s0))) =
      []"
    using li by (simp add: init_state_def)
  moreover
  from log_line_interval [where a = demo_args and w = demo_world and k = 2] all
  have "list_ex (log_line_at 2) (trace (snd (train_script demo_args demo_world)))"
    using ev li by (simp add: list_all_iff)
  ultimately show ?thesis using n1 ok all by simp
qed

text \<open>
  C4 as stated fails when line 136 raises. With \<^verbatim>\<open>--log-interval 1\<close> the log line is due
  after the first update. When the two clock readings around that update are equal,
  \<^verbatim>\<open>update_end_time - update_start_time\<close> is zero and line 136 raises
  \<^verbatim>\<open>ZeroDivisionError\<close>; when the update returns \<open>2^1024\<close> frames the conversion of that
  integer to a float raises \<^verbatim>\<open>OverflowError\<close>. Either way the script ends after update 1
  with no log line printed.
\<close>

theorem log_line_interval_fps_raises:
  "log_interval demo_args dvd 1 \<and>
   fst (train_script demo_args (demo_world\<lparr>update_parameters := [frozen_update 2]\<rparr>)) =
     Raised ZeroDivisionError \<and>
   loop_i (snd (train_script demo_args
     (demo_world\<lparr>update_parameters := [frozen_update 2]\<rparr>))) = 1 \<and>
   filter (log_line_at 1) (trace (snd (train_script demo_args
     (demo_world\<lparr>update_parameters := [frozen_update 2]\<rparr>)))) = [] \<and>
   fst (train_script demo_args (demo_world\<lparr>update_parameters := [demo_update (2 ^ 1024)]\<rparr>)) =
     Raised OverflowError \<and>
   loop_i (snd (train_script demo_args
     (demo_world\<lparr>update_parameters := [demo_update (2 ^ 1024)]\<rparr>))) = 1 \<and>
   filter (log_line_at 1) (trace (snd (train_script demo_args
     (demo_world\<lparr>update_parameters := [demo_update (2 ^ 1024)]\<rparr>)))) = []"
  by code_simp

text \<open>
  C3, as amended. A round of the loop that no exception ends before the save block, that
  is with \<^verbatim>\<open>args.log_interval\<close> not zero and, when its log line is due, with a division
  on line 136 that does not raise, checkpoints state after its update, number \<open>i\<close>,
  exactly when \<^verbatim>\<open>args.save_interval > 0\<close> and \<open>i\<close> is a multiple of
  \<^verbatim>\<open>args.save_interval\<close>: then the vocabulary is saved and the model is saved under
  \<^verbatim>\<open>model_name\<close>, in this order, and otherwise neither is. With
  \<^verbatim>\<open>args.save_interval = 0\<close> no run of the script ever checkpoints.
\<close>

theorem checkpoint_interval:
  "(log_interval a \<noteq> 0 \<and> (log_interval a dvd loop_i st + 1 \<longrightarrow> fps_error u = None) \<and>
    iteration a w u st = (r, st') \<longrightarrow>
      r = None \<and> loop_i st' = loop_i st + 1 \<and>
      filter is_checkpoint_call (emitted st st') =
        (if 0 < save_interval a \<and> save_interval a dvd loop_i st'
         then [VocabSave,
               SaveModel (if cuda_is_available w then map_option (\<lambda>_. CPU) (acmodel st)
                          else acmodel st) (model_name a (strftime_now w))]
         else [])) \<and>
   (save_interval a = 0 \<longrightarrow>
      \<not> list_ex is_checkpoint_call (trace (snd (train_script a w))))"
proof (intro conjI impI)
  assume h: "log_interval a \<noteq> 0 \<and> (log_interval a dvd loop_i st + 1 \<longrightarrow> fps_error u = None) \<and>
    iteration a w u st = (r, st')"
  then have nz: "log_interval a \<noteq> 0"
    and ok: "log_interval a dvd loop_i st + 1 \<longrightarrow> fps_error u = None"
    and it: "iteration a w u st = (r, st')"
    by simp_all
  note c = iteration_counters [OF it]
  have re: "round_error a (loop_i st + 1) u = None"
    using nz ok by (simp add: round_error_def logs_now_dvd')
  show "r = None" using iteration_raises [OF it] re by simp
  show "loop_i st' = loop_i st + 1" by (rule c(1))
  show "filter is_checkpoint_call (emitted st st') =
        (if 0 < save_interval a \<and> save_interval a dvd loop_i st'
         then [VocabSave,
               SaveModel (if cuda_is_available w then map_option (\<lambda>_. CPU) (acmodel st)
                          else acmodel st) (model_name a (strftime_now w))]
         else [])"
    unfolding iteration_checkpoint [OF it] c(1) saves_now_dvd using re by simp
next
  assume z: "save_interval a = 0"
  have run: "train_script a w = (fst (train_script a w), snd (train_script a w))"
    by simp
  from train_script_run [OF run] obtain r0 st0 es where
    s: "script_setup a w = (r0, st0)"
    and err: "\<And>e. r0 = Some e \<Longrightarrow> snd (train_script a w) = st0"
    and loop: "r0 = None \<Longrightarrow>
      train_loop a w (update_parameters w) st0 = (fst (train_script a w), snd (train_script a w))"
    by metis
  note q = script_setup_quiet(1) [OF s]
  show "\<not> list_ex is_checkpoint_call (trace (snd (train_script a w)))"
  proof (cases r0)
    case (Some e)
    then show ?thesis using err q by simp
  next
    case None
    from z have "save_interval a \<le> 0" by simp
    from train_loop_no_checkpoint [OF loop [OF None] this q] show ?thesis .
  qed
qed

theorem checkpoint_interval_witness:
  "log_interval (demo_args\<lparr>save_interval := 2\<rparr>) \<noteq> 0 \<and>
   fps_error (demo_update 2) = None \<and>
   filter is_checkpoint_call
     (emitted (init_state\<lparr>loop_i := 1, acmodel := Some CUDA\<rparr>)
        (snd (iteration (demo_args\<lparr>save_interval := 2\<rparr>) demo_world (demo_update 2)
           (init_state\<lparr>loop_i := 1, acmodel := Some CUDA\<rparr>)))) =
     [VocabSave, SaveModel (Some CPU) ''MiniGrid-Empty-8x8-v0_ppo_261104212400''] \<and>
   save_interval demo_args = 0 \<and>
   \<not> list_ex is_checkpoint_call (trace (snd (train_script demo_args demo_world)))"
proof -
  let ?a = "demo_args\<lparr>save_interval := 2\<rparr>"
  let ?s = "init_state\<lparr>loop_i := 1, acmodel := Some CUDA\<rparr> :: (unit, unit) state"
  have nz: "log_interval ?a \<noteq> 0" and z: "save_interval demo_args = 0"
    and sv: "save_interval ?a = 2"
    by (simp_all add: demo_args_def)
  have ok: "fps_error (demo_update 2) = None"
    by code_simp
  have mn: "model_name ?a (strftime_now demo_world) = ''MiniGrid-Empty-8x8-v0_ppo_261104212400''"
    by (simp add: model_name_def default_model_name_def demo_args_def demo_world_def)
  have cu: "cuda_is_available demo_world"
    by (simp add: demo_world_def)
  from checkpoint_interval [where a = ?a and w = demo_world and u = "demo_update 2" and st = ?s
      and r = "fst (iteration ?a demo_world (demo_update 2) ?s)"
      and st' = "snd (iteration ?a demo_world (demo_update 2) ?s)"] nz ok
  have "filter is_checkpoint_call
     (emitted ?s (snd (iteration ?a demo_world (demo_update 2) ?s))) =
     [VocabSave, SaveModel (Some CPU) ''MiniGrid-Empty-8x8-v0_ppo_261104212400'']"
    using sv mn cu by (simp add: init_state_def)
  moreover from checkpoint_interval [where a = demo_args and w = demo_world] z
  have "\<not> list_ex is_checkpoint_call (trace (snd (train_script demo_args demo_world)))"
    by simp
  ultimately show ?thesis using nz z ok by simp
qed

text \<open>
  C3 as stated fails in a round that an exception ends before the save block, although
  \<^verbatim>\<open>args.save_interval = 1 > 0\<close> and 1 is a multiple of it. The first update is made and
  then: with \<^verbatim>\<open>--log-interval 0\<close>, \<^verbatim>\<open>i % args.log_interval\<close> on line 134 raises
  \<^verbatim>\<open>ZeroDivisionError\<close>; with \<^verbatim>\<open>--log-interval 1\<close> and equal clock readings around the
  update, line 136 raises \<^verbatim>\<open>ZeroDivisionError\<close>; with \<^verbatim>\<open>--log-interval 1\<close> and an
  update of \<open>2^1024\<close> frames, line 136 raises \<^verbatim>\<open>OverflowError\<close>.
\<close>

theorem checkpoint_interval_round_raises:
  "0 < save_interval (demo_args\<lparr>save_interval := 1\<rparr>) \<and>
   save_interval (demo_args\<lparr>save_interval := 1\<rparr>) dvd 1 \<and>
   fst (train_script (demo_args\<lparr>log_interval := 0, save_interval := 1\<rparr>) demo_world) =
     Raised ZeroDivisionError \<and>
   filter is_update
     (trace (snd (train_script (demo_args\<lparr>log_interval := 0, save_interval := 1\<rparr>) demo_world))) =
     [UpdateParameters] \<and>
   filter is_checkpoint_call
     (trace (snd (train_script (demo_args\<lparr>log_interval := 0, save_interval := 1\<rparr>) demo_world))) =
     [] \<and>
   fst (train_script (demo_args\<lparr>save_interval := 1\<rparr>)
     (demo_world\<lparr>update_parameters := [frozen_update 2]\<rparr>)) = Raised ZeroDivisionError \<and>
   filter is_update (trace (snd (train_script (demo_args\<lparr>save_interval := 1\<rparr>)
     (demo_world\<lparr>update_parameters := [frozen_update 2]\<rparr>)))) = [UpdateParameters] \<and>
   filter is_checkpoint_call (trace (snd (train_script (demo_args\<lparr>save_interval := 1\<rparr>)
     (demo_world\<lparr>update_parameters := [frozen_update 2]\<rparr>)))) = [] \<and>
   fst (train_script (demo_args\<lparr>save_interval := 1\<rparr>)
     (demo_world\<lparr>update_parameters := [demo_update (2 ^ 1024)]\<rparr>)) = Raised OverflowError \<and>
   filter is_update (trace (snd (train_script (demo_args\<lparr>save_interval := 1\<rparr>)
     (demo_world\<lparr>update_parameters := [demo_update (2 ^ 1024)]\<rparr>)))) = [UpdateParameters] \<and>
   filter is_checkpoint_call (trace (snd (train_script (demo_args\<lparr>save_interval := 1\<rparr>)
     (demo_world\<lparr>update_parameters := [demo_update (2 ^ 1024)]\<rparr>)))) = []"
  by code_simp

text \<open>
  C10, as amended. With \<^verbatim>\<open>--no-tb\<close> no run constructs a \<^verbatim>\<open>SummaryWriter\<close> or writes a
  tensorboard scalar. Without it, a round of the loop writes the scalars of step \<open>k\<close>
  exactly when \<open>k\<close> is the number of its update, the condition of line 134 holds at
  \<open>i = k\<close>, and the division of line 136 does not raise; over a whole run, the scalars of
  step \<open>k\<close> are written exactly when the log line of update \<open>k\<close> is printed.
\<close>

theorem tensorboard_writes:
  "(no_tb a \<longrightarrow> \<not> list_ex is_tensorboard_call (trace (snd (train_script a w)))) \<and>
   (\<not> no_tb a \<and> iteration a w u st = (r, st') \<longrightarrow>
      (list_ex (scalar_at k) (emitted st st') \<longleftrightarrow>
         k = loop_i st' \<and> logs_now a (loop_i st') \<and> fps_error u = None)) \<and>
   (\<not> no_tb a \<longrightarrow>
      (list_ex (scalar_at k) (trace (snd (train_script a w))) \<longleftrightarrow>
         list_ex (log_line_at k) (trace (snd (train_script a w)))))"
proof (intro conjI impI)
  have run: "train_script a w = (fst (train_script a w), snd (train_script a w))"
    by simp
  {
    assume n: "no_tb a"
    from train_script_run [OF run] obtain r0 st0 es where
      s: "script_setup a w = (r0, st0)"
      and err: "\<And>e. r0 = Some e \<Longrightarrow> snd (train_script a w) = st0"
      and loop: "r0 = None \<Longrightarrow>
        train_loop a w (update_parameters w) st0 = (fst (train_script a w), snd (train_script a w))"
      by metis
    note q = script_setup_quiet(5) [OF s n]
    show "\<not> list_ex is_tensorboard_call (trace (snd (train_script a w)))"
    proof (cases r0)
      case (Some e)
      then show ?thesis using err q by simp
    next
      case None
      from train_loop_no_tensorboard [OF loop [OF None] n q] show ?thesis .
    qed
  }
  {
    assume h: "\<not> no_tb a \<and> iteration a w u st = (r, st')"
    then have n: "\<not> no_tb a" and it: "iteration a w u st = (r, st')"
      by simp_all
    show "list_ex (scalar_at k) (emitted st st') \<longleftrightarrow>
         k = loop_i st' \<and> logs_now a (loop_i st') \<and> fps_error u = None"
      unfolding iteration_these_scalars [OF it] iteration_counters(1) [OF it] using n by auto
  }
  {
    assume n: "\<not> no_tb a"
    show "list_ex (scalar_at k) (trace (snd (train_script a w))) \<longleftrightarrow>
         list_ex (log_line_at k) (trace (snd (train_script a w)))"
      unfolding train_script_scalars [OF run] using n by simp
  }
qed

theorem tensorboard_writes_witness:
  "no_tb (demo_args\<lparr>no_tb := True\<rparr>) \<and>
   \<not> list_ex is_tensorboard_call
       (trace (snd (train_script (demo_args\<lparr>no_tb := True\<rparr>) demo_world))) \<and>
   \<not> no_tb demo_args \<and>
   list_ex (scalar_at 1)
     (emitted init_state (snd (iteration demo_args demo_world (demo_update 2) init_state))) \<and>
   list_ex (scalar_at 2) (trace (snd (train_script demo_args demo_world))) \<and>
   list_ex (log_line_at 2) (trace (snd (train_script demo_args demo_world)))"
proof -
  let ?s0 = "init_state :: (unit, unit) state"
  have y: "no_tb (demo_args\<lparr>no_tb := True\<rparr>)" and n: "\<not> no_tb demo_args"
    by (simp_all add: demo_args_def)
  have ev: "list_ex (log_line_at 2) (trace (snd (train_script demo_args demo_world)))"
    "logs_now demo_args 1" "fps_error (demo_update 2) = None"
    by code_simp+
  have i: "loop_i (snd (iteration demo_args demo_world (demo_update 2) ?s0)) = 1"
    using iteration_counters(1) [OF prod.collapse [symmetric], of demo_args demo_world
        "demo_update 2" ?s0]
    by (simp add: init_state_def)
  from tensorboard_writes [where a = "demo_args\<lparr>no_tb := True\<rparr>" and w = demo_world] y
  have "\<not> list_ex is_tensorboard_call
       (trace (snd (train_script (demo_args\<lparr>no_tb := True\<rparr>) demo_world)))"
    by simp
  moreover from tensorboard_writes [where a = demo_args and w = demo_world and k = 1
      and u = "demo_update 2" and st = ?s0
      and r = "fst (iteration demo_args demo_world (demo_update 2) ?s0)"
      and st' = "snd (iteration demo_args demo_world (demo_update 2) ?s0)"] n ev(2,3) i
  have "list_ex (scalar_at 1)
     (emitted ?s0 (snd (iteration demo_args demo_world (demo_update 2) ?s0)))"
    by simp
  moreover from tensorboard_writes [where a = demo_args and w = demo_world and k = 2] n ev(1)
  have "list_ex (scalar_at 2) (trace (snd (train_script demo_args demo_world)))"
    by simp
  ultimately show ?thesis using y n ev(1) by simp
qed

text \<open>
  C10 as stated fails when line 136 raises. Without \<^verbatim>\<open>--no-tb\<close> and with
  \<^verbatim>\<open>--log-interval 1\<close> the condition \<^verbatim>\<open>i % args.log_interval == 0\<close> holds after the first
  update, yet no scalar is written at step 1: with equal clock readings around the
  update line 136 raises \<^verbatim>\<open>ZeroDivisionError\<close>, with an update of \<open>2^1024\<close> frames it
  raises \<^verbatim>\<open>OverflowError\<close>, both before line 149.
\<close>

theorem tensorboard_writes_fps_raises:
  "\<not> no_tb demo_args \<and> logs_now demo_args 1 \<and>
   fst (train_script demo_args (demo_world\<lparr>update_parameters := [frozen_update 2]\<rparr>)) =
     Raised ZeroDivisionError \<and>
   loop_i (snd (train_script demo_args
     (demo_world\<lparr>update_parameters := [frozen_update 2]\<rparr>))) = 1 \<and>
   filter (scalar_at 1) (trace (snd (train_script demo_args
     (demo_world\<lparr>update_parameters := [frozen_update 2]\<rparr>)))) = [] \<and>
   fst (train_script demo_args (demo_world\<lparr>update_parameters := [demo_update (2 ^ 1024)]\<rparr>)) =
     Raised OverflowError \<and>
   filter (scalar_at 1) (trace (snd (train_script demo_args
     (demo_world\<lparr>update_parameters := [demo_update (2 ^ 1024)]\<rparr>)))) = []"
  by code_simp

text \<open>
  C5, as amended. Every round of the loop calls \<^verbatim>\<open>algo.update_parameters()\<close> once. The
  loop makes no round when \<^verbatim>\<open>num_frames < args.frames\<close> is false, it has finished only
  with \<^verbatim>\<open>num_frames >= args.frames\<close>, and it asks for a further update only with
  \<^verbatim>\<open>num_frames < args.frames\<close>. When every update returns \<^verbatim>\<open>log["num_frames"] >= 1\<close> and
  no round raises an exception, the loop finishes as soon as it is given
  \<^verbatim>\<open>args.frames - num_frames\<close> updates: it ends after finitely many updates with
  \<^verbatim>\<open>num_frames >= args.frames\<close>. A round raises exactly when \<^verbatim>\<open>args.log_interval\<close> is
  zero, or its log line is due and the division of line 136 raises; so no round raises
  when \<^verbatim>\<open>args.log_interval\<close> is not zero and line 136 can raise at no update.
\<close>

theorem training_loop_terminates:
  "filter is_update (emitted s (snd (iteration a w u s))) = [UpdateParameters] \<and>
   (frames a \<le> num_frames st \<longrightarrow> train_loop a w ls st = (Finished, st)) \<and>
   (fst (train_loop a w ls st) = Finished \<longrightarrow>
      frames a \<le> num_frames (snd (train_loop a w ls st))) \<and>
   (fst (train_loop a w ls st) = Starved \<longrightarrow>
      num_frames (snd (train_loop a w ls st)) < frames a) \<and>
   ((\<forall>v \<in> set ls. 1 \<le> log_num_frames (update_result v)) \<and>
    frames a - num_frames st \<le> int (length ls) \<and>
    (\<forall>e. fst (train_loop a w ls st) \<noteq> Raised e) \<longrightarrow>
      fst (train_loop a w ls st) = Finished \<and>
      frames a \<le> num_frames (snd (train_loop a w ls st)) \<and>
      int (length (filter is_update (emitted st (snd (train_loop a w ls st))))) =
        loop_i (snd (train_loop a w ls st)) - loop_i st) \<and>
   (fst (iteration a w u s) = None \<longleftrightarrow>
      log_interval a \<noteq> 0 \<and> (logs_now a (loop_i s + 1) \<longrightarrow> fps_error u = None)) \<and>
   (log_interval a \<noteq> 0 \<and> (\<forall>v \<in> set ls. fps_error v = None) \<longrightarrow>
      (\<forall>e. fst (train_loop a w ls st) \<noteq> Raised e))"
proof (intro conjI impI)
  show "filter is_update (emitted s (snd (iteration a w u s))) = [UpdateParameters]"
    by (rule iteration_updates [OF prod.collapse [symmetric]])
next
  assume "frames a \<le> num_frames st"
  then show "train_loop a w ls st = (Finished, st)"
    by (cases ls) simp_all
next
  have run: "train_loop a w ls st = (fst (train_loop a w ls st), snd (train_loop a w ls st))"
    by simp
  note g = train_loop_guard [OF run]
  {
    assume "fst (train_loop a w ls st) = Finished"
    then show "frames a \<le> num_frames (snd (train_loop a w ls st))"
      using g by blast
  }
  {
    assume "fst (train_loop a w ls st) = Starved"
    then show "num_frames (snd (train_loop a w ls st)) < frames a"
      using g by blast
  }
  {
    assume h: "(\<forall>v \<in> set ls. 1 \<le> log_num_frames (update_result v)) \<and>
      frames a - num_frames st \<le> int (length ls) \<and>
      (\<forall>e. fst (train_loop a w ls st) \<noteq> Raised e)"
    then have h1: "\<forall>v \<in> set ls. 1 \<le> log_num_frames (update_result v)"
      and h2: "frames a - num_frames st \<le> int (length ls)"
      and h3: "\<forall>e. fst (train_loop a w ls st) \<noteq> Raised e"
      by blast+
    have "fst (train_loop a w ls st) \<noteq> Starved"
      by (rule train_loop_not_starved [OF h1 h2])
    with h3 show fin: "fst (train_loop a w ls st) = Finished"
      by (cases "fst (train_loop a w ls st)") simp_all
    then show "frames a \<le> num_frames (snd (train_loop a w ls st))"
      using g by blast
    from train_loop_counters [OF run]
    show "int (length (filter is_update (emitted st (snd (train_loop a w ls st))))) =
        loop_i (snd (train_loop a w ls st)) - loop_i st"
      by auto
  }
  {
    assume h: "log_interval a \<noteq> 0 \<and> (\<forall>v \<in> set ls. fps_error v = None)"
    then have h1: "log_interval a \<noteq> 0" and h2: "\<forall>v \<in> set ls. fps_error v = None"
      by blast+
    show "\<forall>e. fst (train_loop a w ls st) \<noteq> Raised e"
      using train_loop_no_raise [OF run h1 h2] by blast
  }
next
  have "fst (iteration a w u s) = round_error a (loop_i s + 1) u"
    by (rule iteration_raises [OF prod.collapse [symmetric]])
  then show "fst (iteration a w u s) = None \<longleftrightarrow>
      log_interval a \<noteq> 0 \<and> (logs_now a (loop_i s + 1) \<longrightarrow> fps_error u = None)"
    by (simp add: round_error_def)
qed

theorem training_loop_terminates_witness:
  "log_interval demo_args \<noteq> 0 \<and>
   list_all (\<lambda>v. fps_error v = None) (update_parameters demo_world) \<and>
   list_all (\<lambda>v. 1 \<le> log_num_frames (update_result v)) (update_parameters demo_world) \<and>
   frames demo_args - num_frames (init_state :: (unit, unit) state)
     \<le> int (length (update_parameters demo_world)) \<and>
   fst (train_loop demo_args demo_world (update_parameters demo_world) init_state) = Finished \<and>
   frames demo_args
     \<le> num_frames (snd (train_loop demo_args demo_world (update_parameters demo_world) init_state)) \<and>
   loop_i (snd (train_loop demo_args demo_world (update_parameters demo_world) init_state)) = 2"
proof -
  let ?s0 = "init_state :: (unit, unit) state"
  let ?ls = "update_parameters demo_world"
  have h0: "log_interval demo_args \<noteq> 0"
    by (simp add: demo_args_def)
  have ok: "fps_error (demo_update 2) = None"
    by code_simp
  have h1: "list_all (\<lambda>v. fps_error v = None) ?ls"
    using ok by (simp add: demo_world_def)
  have h2: "list_all (\<lambda>v. 1 \<le> log_num_frames (update_result v)) ?ls"
    by (simp add: demo_world_def demo_update_def demo_log_def)
  have h3: "frames demo_args - num_frames ?s0 \<le> int (length ?ls)"
    by (simp add: demo_args_def demo_world_def init_state_def)
  have ev: "loop_i (snd (train_loop demo_args demo_world ?ls ?s0)) = 2"
    by code_simp
  note t = training_loop_terminates [where a = demo_args and w = demo_world and ls = ?ls
      and st = ?s0]
  from t h0 h1 have nr: "\<forall>e. fst (train_loop demo_args demo_world ?ls ?s0) \<noteq> Raised e"
    by (simp add: list_all_iff)
  from t h2 h3 nr
  have "fst (train_loop demo_args demo_world ?ls ?s0) = Finished \<and>
   frames demo_args \<le> num_frames (snd (train_loop demo_args demo_world ?ls ?s0))"
    by (simp add: list_all_iff)
  then show ?thesis using h0 h1 h2 h3 ev by simp
qed

text \<open>
  C5 as stated fails when a round raises: every update returns two frames, yet the script
  ends by an exception after the first update with \<^verbatim>\<open>num_frames = 2 < args.frames = 3\<close>.
  With \<^verbatim>\<open>--log-interval 0\<close> line 134 raises \<^verbatim>\<open>ZeroDivisionError\<close>; with
  \<^verbatim>\<open>--log-interval 1\<close> and equal clock readings around the update line 136 does.
\<close>

theorem training_loop_round_raises:
  "list_all (\<lambda>v. 1 \<le> log_num_frames (update_result v)) (update_parameters demo_world) \<and>
   fst (train_script (demo_args\<lparr>log_interval := 0\<rparr>) demo_world) = Raised ZeroDivisionError \<and>
   num_frames (snd (train_script (demo_args\<lparr>log_interval := 0\<rparr>) demo_world)) = 2 \<and>
   frames (demo_args\<lparr>log_interval := 0\<rparr>) = 3 \<and>
   1 \<le> log_num_frames (update_result (frozen_update 2)) \<and>
   log_interval demo_args = 1 \<and>
   fst (train_script demo_args (demo_world\<lparr>update_parameters := replicate 3 (frozen_update 2)\<rparr>)) =
     Raised ZeroDivisionError \<and>
   num_frames (snd (train_script demo_args
     (demo_world\<lparr>update_parameters := replicate 3 (frozen_update 2)\<rparr>))) = 2 \<and>
   frames demo_args = 3"
  by code_simp

text \<open>
  C7, as amended. In every run of the script, with \<open>k\<close> the number of calls of
  \<^verbatim>\<open>algo.update_parameters()\<close> made so far, the counter \<^verbatim>\<open>i\<close> is \<open>k\<close> and \<^verbatim>\<open>num_frames\<close> is
  the sum of the \<^verbatim>\<open>log["num_frames"]\<close> of the first \<open>k\<close> update results. Both counters are
  0 when the set-up is over. A round of the loop adds 1 to \<^verbatim>\<open>i\<close> and the
  \<^verbatim>\<open>log["num_frames"]\<close> of its update to \<^verbatim>\<open>num_frames\<close>: \<^verbatim>\<open>i\<close> never decreases, and
  \<^verbatim>\<open>num_frames\<close> does not decrease when the update returns a frame count that is not
  negative.
\<close>

theorem loop_counters:
  "(\<exists>k \<le> length (update_parameters w).
      loop_i (snd (train_script a w)) = int k \<and>
      num_frames (snd (train_script a w)) =
        sum_list (map (\<lambda>u. log_num_frames (update_result u)) (take k (update_parameters w))) \<and>
      length (filter is_update (trace (snd (train_script a w)))) = k) \<and>
   (script_setup a w = (ra, sa) \<longrightarrow> num_frames sa = 0 \<and> loop_i sa = 0) \<and>
   (iteration a w u s = (e, s') \<longrightarrow>
      loop_i s' = loop_i s + 1 \<and> num_frames s' = num_frames s + log_num_frames (update_result u) \<and>
      loop_i s < loop_i s' \<and> (0 \<le> log_num_frames (update_result u) \<longrightarrow> num_frames s \<le> num_frames s'))"
proof (intro conjI impI)
  have run: "train_script a w = (fst (train_script a w), snd (train_script a w))"
    by simp
  from train_script_run [OF run] obtain q0 t0 es where
    s: "script_setup a w = (q0, t0)"
    and tr: "trace (snd (train_script a w)) = trace t0 @ es"
    and err: "\<And>e. q0 = Some e \<Longrightarrow> snd (train_script a w) = t0"
    and loop: "q0 = None \<Longrightarrow>
      train_loop a w (update_parameters w) t0 = (fst (train_script a w), snd (train_script a w))"
    by metis
  note q = script_setup_quiet [OF s]
  show "\<exists>k \<le> length (update_parameters w).
      loop_i (snd (train_script a w)) = int k \<and>
      num_frames (snd (train_script a w)) =
        sum_list (map (\<lambda>u. log_num_frames (update_result u)) (take k (update_parameters w))) \<and>
      length (filter is_update (trace (snd (train_script a w)))) = k"
  proof (cases q0)
    case (Some e)
    from err [OF Some] have "0 \<le> length (update_parameters w) \<and>
      loop_i (snd (train_script a w)) = int 0 \<and>
      num_frames (snd (train_script a w)) =
        sum_list (map (\<lambda>u. log_num_frames (update_result u)) (take 0 (update_parameters w))) \<and>
      length (filter is_update (trace (snd (train_script a w)))) = 0"
      using q(4,6,7) by simp
    then show ?thesis by blast
  next
    case None
    from train_loop_counters [OF loop [OF None]] obtain k where
      k: "k \<le> length (update_parameters w)"
      "loop_i (snd (train_script a w)) = loop_i t0 + int k"
      "num_frames (snd (train_script a w)) =
         num_frames t0 + sum_list (map (\<lambda>u. log_num_frames (update_result u)) (take k (update_parameters w)))"
      "length (filter is_update (emitted t0 (snd (train_script a w)))) = k"
      by blast
    have "emitted t0 (snd (train_script a w)) = es"
      by (rule emitted_append [OF tr])
    then have "length (filter is_update (trace (snd (train_script a w)))) = k"
      using k(4) tr q(4) by simp
    then have "k \<le> length (update_parameters w) \<and>
      loop_i (snd (train_script a w)) = int k \<and>
      num_frames (snd (train_script a w)) =
        sum_list (map (\<lambda>u. log_num_frames (update_result u)) (take k (update_parameters w))) \<and>
      length (filter is_update (trace (snd (train_script a w)))) = k"
      using k(1,2,3) q(6,7) by simp
    then show ?thesis by blast
  qed
next
  assume s: "script_setup a w = (ra, sa)"
  show "num_frames sa = 0" by (rule script_setup_quiet(6) [OF s])
  show "loop_i sa = 0" by (rule script_setup_quiet(7) [OF s])
next
  assume it: "iteration a w u s = (e, s')"
  note c = iteration_counters [OF it]
  show "loop_i s' = loop_i s + 1" by (rule c(1))
  show "num_frames s' = num_frames s + log_num_frames (update_result u)" by (rule c(2))
  show "loop_i s < loop_i s'" using c(1) by simp
  show "num_frames s \<le> num_frames s'" if "0 \<le> log_num_frames (update_result u)"
    using c(2) that by simp
qed

theorem loop_counters_witness:
  "loop_i (snd (train_script demo_args demo_world)) = 2 \<and>
   num_frames (snd (train_script demo_args demo_world)) = 4 \<and>
   length (filter is_update (trace (snd (train_script demo_args demo_world)))) = 2 \<and>
   num_frames (snd (script_setup demo_args demo_world)) = 0 \<and>
   loop_i (snd (script_setup demo_args demo_world)) = 0 \<and>
   0 \<le> log_num_frames (update_result (demo_update 2)) \<and>
   num_frames (init_state :: (unit, unit) state)
     \<le> num_frames (snd (iteration demo_args demo_world (demo_update 2) init_state))"
proof -
  have ev: "loop_i (snd (train_script demo_args demo_world)) = 2"
    "num_frames (snd (train_script demo_args demo_world)) = 4"
    "length (filter is_update (trace (snd (train_script demo_args demo_world)))) = 2"
    by code_simp+
  have p: "0 \<le> log_num_frames (update_result (demo_update 2))"
    by (simp add: demo_update_def demo_log_def)
  from loop_counters [where a = demo_args and w = demo_world and u = "demo_update 2"
      and ra = "fst (script_setup demo_args demo_world)"
      and sa = "snd (script_setup demo_args demo_world)"
      and s = init_state
      and e = "fst (iteration demo_args demo_world (demo_update 2) init_state)"
      and s' = "snd (iteration demo_args demo_world (demo_update 2) init_state)"] p
  have "num_frames (snd (script_setup demo_args demo_world)) = 0 \<and>
   loop_i (snd (script_setup demo_args demo_world)) = 0 \<and>
   num_frames (init_state :: (unit, unit) state)
     \<le> num_frames (snd (iteration demo_args demo_world (demo_update 2) init_state))"
    by simp
  then show ?thesis using ev p by simp
qed

text \<open>
  C7 as stated says that \<^verbatim>\<open>num_frames\<close> is never decreased. It is decreased by an update
  that returns a negative \<^verbatim>\<open>log["num_frames"]\<close>: nothing in the script rejects one.
\<close>

theorem loop_counters_negative_frames:
  "num_frames (snd (script_setup demo_args
      (demo_world\<lparr>update_parameters := [demo_update (- 1)]\<rparr>))) = 0 \<and>
   loop_i (snd (train_script demo_args
      (demo_world\<lparr>update_parameters := [demo_update (- 1)]\<rparr>))) = 1 \<and>
   num_frames (snd (train_script demo_args
      (demo_world\<lparr>update_parameters := [demo_update (- 1)]\<rparr>))) = - 1"
  by code_simp

text \<open>
  C6. Every run starts with the parsing of the arguments followed by
  \<^verbatim>\<open>utils.seed(args.seed)\<close>, so the seeding comes before any environment is made. A run
  that gets through the set-up (\<open>procs \<ge> 1\<close> and a known algorithm) makes its calls in
  this order: parse, seed, the environments, the preprocessor on the first environment
  and the loading of the model, the algorithm object, the logger, and then only calls
  of the loop. A run that does not get through the set-up stops inside this sequence:
  after the seeding when there is no environment, after the loading of the model when
  the algorithm is unknown. A round of the loop makes its calls in the order update,
  log, checkpoint.
\<close>

theorem script_order:
  "(\<exists>rest. trace (snd (train_script a w)) = ParseArgs # Seed (seed a) # rest) \<and>
   (1 \<le> procs a \<and> (algo a = ''a2c'' \<or> algo a = ''ppo'') \<longrightarrow>
      (\<exists>alg es. trace (snd (train_script a w)) =
          [ParseArgs, Seed (seed a)] @ env_calls a (py_range (procs a)) @ model_calls a w @
          [alg] @ logger_calls a w @ es \<and>
          is_algo alg \<and> list_all is_loop_call es)) \<and>
   (procs a \<le> 0 \<longrightarrow> trace (snd (train_script a w)) = [ParseArgs, Seed (seed a)]) \<and>
   (1 \<le> procs a \<and> algo a \<noteq> ''a2c'' \<and> algo a \<noteq> ''ppo'' \<longrightarrow>
      trace (snd (train_script a w)) =
        [ParseArgs, Seed (seed a)] @ env_calls a (py_range (procs a)) @ model_calls a w) \<and>
   (iteration a w u st = (r, st') \<longrightarrow>
      emitted st st' =
        UpdateParameters #
        (if logs_now a (loop_i st') \<and> fps_error u = None
         then LogLine (loop_i st') (num_frames st') (log_metrics (update_result u)) #
                (if no_tb a then [] else scalar_calls (loop_i st'))
         else []) @
        (if round_error a (loop_i st') u = None \<and> saves_now a (loop_i st')
         then save_calls a w (acmodel st) else []))"
proof (intro conjI impI)
  have run: "train_script a w = (fst (train_script a w), snd (train_script a w))"
    by simp
  from train_script_run [OF run] obtain q0 t0 es where
    s: "script_setup a w = (q0, t0)"
    and tr: "trace (snd (train_script a w)) = trace t0 @ es"
    and es: "list_all is_loop_call es"
    and err: "\<And>e. q0 = Some e \<Longrightarrow> snd (train_script a w) = t0"
    by metis
  {
    assume p: "procs a \<le> 0"
    from script_setup_no_envs [OF p, of w] s
    have "q0 = Some IndexError" "t0 = init_state\<lparr>trace := [ParseArgs, Seed (seed a)]\<rparr>"
      by simp_all
    then show "trace (snd (train_script a w)) = [ParseArgs, Seed (seed a)]"
      using err by (simp add: init_state_def)
  }
  {
    assume h: "1 \<le> procs a \<and> algo a \<noteq> ''a2c'' \<and> algo a \<noteq> ''ppo''"
    then have p: "1 \<le> procs a" and al: "algo a \<noteq> ''a2c''" "algo a \<noteq> ''ppo''"
      by simp_all
    from script_setup_envs(1) [OF p s] al have "q0 = Some ValueError"
      by simp
    then have "snd (train_script a w) = t0"
      by (rule err)
    moreover have "trace t0 =
        [ParseArgs, Seed (seed a)] @ env_calls a (py_range (procs a)) @ model_calls a w"
      using script_setup_envs(6) [OF p s] al by simp
    ultimately show "trace (snd (train_script a w)) =
        [ParseArgs, Seed (seed a)] @ env_calls a (py_range (procs a)) @ model_calls a w"
      by simp
  }
  show "\<exists>rest. trace (snd (train_script a w)) = ParseArgs # Seed (seed a) # rest"
    using s
  proof (cases rule: script_setup_cases)
    case no_envs
    then show ?thesis using tr by (simp add: init_state_def)
  next
    case envs
    show ?thesis
      unfolding tr script_setup_envs(6) [OF envs s] by simp
  qed
  {
    assume h: "1 \<le> procs a \<and> (algo a = ''a2c'' \<or> algo a = ''ppo'')"
    then have p: "1 \<le> procs a" and al: "algo a = ''a2c'' \<or> algo a = ''ppo''"
      by simp_all
    note su = script_setup_envs(6) [OF p s]
    from al have "\<exists>alg. is_algo alg \<and> trace t0 =
        [ParseArgs, Seed (seed a)] @ env_calls a (py_range (procs a)) @ model_calls a w @
        [alg] @ logger_calls a w"
    proof
      assume "algo a = ''a2c''"
      then show ?thesis unfolding su by (simp add: is_algo_def)
    next
      assume "algo a = ''ppo''"
      then show ?thesis unfolding su by (simp add: is_algo_def)
    qed
    then obtain alg where "is_algo alg" and "trace t0 =
        [ParseArgs, Seed (seed a)] @ env_calls a (py_range (procs a)) @ model_calls a w @
        [alg] @ logger_calls a w"
      by blast
    then have "trace (snd (train_script a w)) =
          [ParseArgs, Seed (seed a)] @ env_calls a (py_range (procs a)) @ model_calls a w @
          [alg] @ logger_calls a w @ es \<and>
          is_algo alg \<and> list_all is_loop_call es"
      using tr es by simp
    then show "\<exists>alg es. trace (snd (train_script a w)) =
          [ParseArgs, Seed (seed a)] @ env_calls a (py_range (procs a)) @ model_calls a w @
          [alg] @ logger_calls a w @ es \<and>
          is_algo alg \<and> list_all is_loop_call es"
      by blast
  }
next
  assume it: "iteration a w u st = (r, st')"
  note c = iteration_counters [OF it]
  show "emitted st st' =
        UpdateParameters #
        (if logs_now a (loop_i st') \<and> fps_error u = None
         then LogLine (loop_i st') (num_frames st') (log_metrics (update_result u)) #
                (if no_tb a then [] else scalar_calls (loop_i st'))
         else []) @
        (if round_error a (loop_i st') u = None \<and> saves_now a (loop_i st')
         then save_calls a w (acmodel st) else [])"
    unfolding c(1) c(2) by (rule emitted_append [OF iteration_trace [OF it]])
qed

theorem script_order_witness:
  "1 \<le> procs demo_args \<and> algo demo_args = ''ppo'' \<and>
   take 15 (trace (snd (train_script demo_args demo_world))) =
     [ParseArgs, Seed 1,
      GymMake ''MiniGrid-Empty-8x8-v0'', EnvSeed 0 1,
      GymMake ''MiniGrid-Empty-8x8-v0'', EnvSeed 1 2,
      ObssPreprocessor ''MiniGrid-Empty-8x8-v0_ppo_261104212400''
        \<lparr>env_id = ''MiniGrid-Empty-8x8-v0'', env_seed = 1\<rparr>,
      LoadModel ''MiniGrid-Empty-8x8-v0_ppo_261104212400'', ModelCuda,
      PPOAlgo [\<lparr>env_id = ''MiniGrid-Empty-8x8-v0'', env_seed = 1\<rparr>,
               \<lparr>env_id = ''MiniGrid-Empty-8x8-v0'', env_seed = 2\<rparr>]
        None () () () () () () 1 () () 4 256,
      Logger ''MiniGrid-Empty-8x8-v0_ppo_261104212400'',
      SummaryWriter ''MiniGrid-Empty-8x8-v0_ppo_261104212400'', LogCommand, LogModel,
      UpdateParameters] \<and>
   list_all is_loop_call (drop 14 (trace (snd (train_script demo_args demo_world)))) \<and>
   emitted init_state (snd (iteration demo_args demo_world (demo_update 2) init_state)) =
     UpdateParameters # LogLine 1 2 () # scalar_calls 1 \<and>
   procs (demo_args\<lparr>procs := 0\<rparr>) \<le> 0 \<and>
   trace (snd (train_script (demo_args\<lparr>procs := 0\<rparr>) demo_world)) = [ParseArgs, Seed 1] \<and>
   algo (demo_args\<lparr>algo := ''dqn''\<rparr>) \<noteq> ''a2c'' \<and>
   algo (demo_args\<lparr>algo := ''dqn''\<rparr>) \<noteq> ''ppo'' \<and>
   length (trace (snd (train_script (demo_args\<lparr>algo := ''dqn''\<rparr>) demo_world))) = 9"
proof -
  have h: "1 \<le> procs demo_args" "algo demo_args = ''ppo''"
    by (simp_all add: demo_args_def)
  have g: "procs (demo_args\<lparr>procs := 0\<rparr>) \<le> 0" "seed (demo_args\<lparr>procs := 0\<rparr>) = 1"
    "1 \<le> procs (demo_args\<lparr>algo := ''dqn''\<rparr>)"
    "algo (demo_args\<lparr>algo := ''dqn''\<rparr>) \<noteq> ''a2c''"
    "algo (demo_args\<lparr>algo := ''dqn''\<rparr>) \<noteq> ''ppo''"
    "procs (demo_args\<lparr>algo := ''dqn''\<rparr>) = 2"
    by (simp_all add: demo_args_def)
  from script_order [where a = "demo_args\<lparr>procs := 0\<rparr>" and w = demo_world] g(1,2)
  have e1: "trace (snd (train_script (demo_args\<lparr>procs := 0\<rparr>) demo_world)) = [ParseArgs, Seed 1]"
    by simp
  have r2: "py_range 2 = [0, 1]"
    by (simp add: py_range_def upt_conv_Cons)
  from script_order [where a = "demo_args\<lparr>algo := ''dqn''\<rparr>" and w = demo_world] g(3,4,5)
  have e2: "length (trace (snd (train_script (demo_args\<lparr>algo := ''dqn''\<rparr>) demo_world))) = 9"
    using g(6) r2 by (simp add: env_calls_def model_calls_def demo_world_def)
  have ev: "take 15 (trace (snd (train_script demo_args demo_world))) =
     [ParseArgs, Seed 1,
      GymMake ''MiniGrid-Empty-8x8-v0'', EnvSeed 0 1,
      GymMake ''MiniGrid-Empty-8x8-v0'', EnvSeed 1 2,
      ObssPreprocessor ''MiniGrid-Empty-8x8-v0_ppo_261104212400''
        \<lparr>env_id = ''MiniGrid-Empty-8x8-v0'', env_seed = 1\<rparr>,
      LoadModel ''MiniGrid-Empty-8x8-v0_ppo_261104212400'', ModelCuda,
      PPOAlgo [\<lparr>env_id = ''MiniGrid-Empty-8x8-v0'', env_seed = 1\<rparr>,
               \<lparr>env_id = ''MiniGrid-Empty-8x8-v0'', env_seed = 2\<rparr>]
        None () () () () () () 1 () () 4 256,
      Logger ''MiniGrid-Empty-8x8-v0_ppo_261104212400'',
      SummaryWriter ''MiniGrid-Empty-8x8-v0_ppo_261104212400'', LogCommand, LogModel,
      UpdateParameters]"
    "list_all is_loop_call (drop 14 (trace (snd (train_script demo_args demo_world))))"
    by code_simp+
  have c: "logs_now demo_args 1" "\<not> no_tb demo_args" "\<not> saves_now demo_args 1"
    "fps_error (demo_update 2) = None"
    by (simp_all add: logs_now_def saves_now_def demo_args_def fps_error_def
        py_truediv_raises_def fits_float_def demo_update_def demo_log_def)
  have n: "iteration demo_args demo_world (demo_update 2) (init_state :: (unit, unit) state) =
      (fst (iteration demo_args demo_world (demo_update 2) init_state),
       snd (iteration demo_args demo_world (demo_update 2) init_state))"
    by simp
  note k = iteration_counters [OF n]
  from script_order [where a = demo_args and w = demo_world and u = "demo_update 2"
      and st = init_state
      and r = "fst (iteration demo_args demo_world (demo_update 2) init_state)"
      and st' = "snd (iteration demo_args demo_world (demo_update 2) init_state)"]
  have "emitted init_state (snd (iteration demo_args demo_world (demo_update 2) init_state)) =
     UpdateParameters # LogLine 1 2 () # scalar_calls 1"
    using c k by (simp add: init_state_def demo_update_def demo_log_def)
  then show ?thesis using h ev g e1 e2 by simp
qed

text \<open>
  C9. When the set-up is over the model is on the GPU if CUDA is available and on the CPU
  otherwise. The save block, started with the model there, ends with the model on the
  same device: with CUDA it moves the model to the CPU, saves it, and moves it back;
  without CUDA it saves the model where it is. In both cases the model is on the CPU
  when \<^verbatim>\<open>utils.save_model\<close> is called. A whole round of the loop leaves the device
  unchanged as well, so that the model is on that device in every state of a run that
  got past line 82.
\<close>

theorem save_keeps_device:
  "(script_setup a w = (None, sa) \<longrightarrow>
      acmodel sa = Some (if cuda_is_available w then CUDA else CPU)) \<and>
   (acmodel st = Some (if cuda_is_available w then CUDA else CPU) \<longrightarrow>
      acmodel (save_block a w st) = acmodel st \<and>
      emitted st (save_block a w st) =
        (if cuda_is_available w
         then [VocabSave, ModelCpu, SaveModel (Some CPU) (model_name a (strftime_now w)),
               ModelCuda]
         else [VocabSave, SaveModel (Some CPU) (model_name a (strftime_now w))]) \<and>
      acmodel (snd (iteration a w u st)) = acmodel st) \<and>
   (1 \<le> procs a \<longrightarrow>
      acmodel (snd (train_script a w)) = Some (if cuda_is_available w then CUDA else CPU))"
proof (intro conjI impI)
  assume s: "script_setup a w = (None, sa)"
  from s show "acmodel sa = Some (if cuda_is_available w then CUDA else CPU)"
  proof (cases rule: script_setup_cases)
    case no_envs
    then show ?thesis by simp
  next
    case envs
    show ?thesis by (rule script_setup_envs(3) [OF envs s])
  qed
next
  assume d: "acmodel st = Some (if cuda_is_available w then CUDA else CPU)"
  show "acmodel (save_block a w st) = acmodel st"
    using d by simp
  have "trace (save_block a w st) = trace st @ save_calls a w (acmodel st)"
    by simp
  from emitted_append [OF this] show "emitted st (save_block a w st) =
        (if cuda_is_available w
         then [VocabSave, ModelCpu, SaveModel (Some CPU) (model_name a (strftime_now w)),
               ModelCuda]
         else [VocabSave, SaveModel (Some CPU) (model_name a (strftime_now w))])"
    using d by (simp add: save_calls_def)
  show "acmodel (snd (iteration a w u st)) = acmodel st"
    unfolding iteration_acmodel [OF prod.collapse [symmetric]] using d by simp
next
  assume p: "1 \<le> procs a"
  have run: "train_script a w = (fst (train_script a w), snd (train_script a w))"
    by simp
  from train_script_run [OF run] obtain q0 t0 es where
    s: "script_setup a w = (q0, t0)"
    and err: "\<And>e. q0 = Some e \<Longrightarrow> snd (train_script a w) = t0"
    and loop: "q0 = None \<Longrightarrow>
      train_loop a w (update_parameters w) t0 = (fst (train_script a w), snd (train_script a w))"
    by metis
  note d = script_setup_envs(3) [OF p s]
  show "acmodel (snd (train_script a w)) = Some (if cuda_is_available w then CUDA else CPU)"
  proof (cases q0)
    case (Some e)
    then show ?thesis using err d by simp
  next
    case None
    from train_loop_acmodel [OF loop [OF None] d] show ?thesis .
  qed
qed

theorem save_keeps_device_witness:
  "fst (script_setup demo_args demo_world) = None \<and>
   acmodel (snd (script_setup demo_args demo_world)) = Some CUDA \<and>
   acmodel (save_block demo_args demo_world (snd (script_setup demo_args demo_world))) =
     Some CUDA \<and>
   emitted (snd (script_setup demo_args demo_world))
     (save_block demo_args demo_world (snd (script_setup demo_args demo_world))) =
     [VocabSave, ModelCpu, SaveModel (Some CPU) ''MiniGrid-Empty-8x8-v0_ppo_261104212400'',
      ModelCuda] \<and>
   1 \<le> procs demo_args \<and>
   acmodel (snd (train_script demo_args demo_world)) = Some CUDA"
proof -
  let ?s = "snd (script_setup demo_args demo_world)"
  have ok: "fst (script_setup demo_args demo_world) = None"
    by code_simp
  then have s: "script_setup demo_args demo_world = (None, ?s)"
    by (metis prod.collapse)
  have p: "1 \<le> procs demo_args" and cu: "cuda_is_available demo_world"
    by (simp_all add: demo_args_def demo_world_def)
  have mn: "model_name demo_args (strftime_now demo_world) =
      ''MiniGrid-Empty-8x8-v0_ppo_261104212400''"
    by (simp add: model_name_def default_model_name_def demo_args_def demo_world_def)
  note t = save_keeps_device [where a = demo_args and w = demo_world and sa = ?s and st = ?s]
  from t s cu have d: "acmodel ?s = Some CUDA"
    by simp
  from t d cu mn have "acmodel (save_block demo_args demo_world ?s) = Some CUDA \<and>
      emitted ?s (save_block demo_args demo_world ?s) =
        [VocabSave, ModelCpu, SaveModel (Some CPU) ''MiniGrid-Empty-8x8-v0_ppo_261104212400'',
         ModelCuda]"
    by simp
  moreover from t p cu have "acmodel (snd (train_script demo_args demo_world)) = Some CUDA"
    by simp
  ultimately show ?thesis using ok d p by simp
qed


end
